theory Spec2Isabelle
  imports Main
begin

section \<open>Values, errors and the host\<close>

text \<open>
  The plug-in (\<^verbatim>\<open>typescript-deno-plugin/src/index.ts\<close>) sits between the TypeScript
  server and its language service.  Settings arrive as JSON objects, so a settings value is a
  JSON tree; a property that is absent from an object reads as \<^verbatim>\<open>undefined\<close> and is
  the \<open>None\<close> of a map lookup.
\<close>

datatype jsval =
    JNull
  | JBool bool
  | JNum int
  | JStr string
  | JArr "jsval list"
  | JObj "(string \<times> jsval) list"

text \<open>
  Arguments and results of language-service methods are runtime values: primitives, or a
  reference to an object of the heap (arrays and object literals have an identity).
\<close>

datatype val = VUndefined | VNull | VBool bool | VNum int | VStr string | VRef nat

datatype obj = OArray "val list" | OObject "(string \<times> val) list"

text \<open>
  What can be thrown: \<open>CwdError\<close> when \<^verbatim>\<open>process.cwd()\<close> fails inside
  \<^verbatim>\<open>path.relative\<close>; \<open>ArgTypeError\<close> for a call whose file-name argument is not a
  string (the parameter types of the wrapped methods exclude such calls);
  \<open>EngineError\<close> for whatever the underlying language service throws;
  \<open>NotModelled\<close> marks inputs of \<^verbatim>\<open>path.win32\<close> that lie outside the fragment
  described in the section on Windows paths.
\<close>

datatype error = CwdError | ArgTypeError | EngineError string | NotModelled

datatype platform = Posix | Win32

text \<open>
  The host: the value of \<^verbatim>\<open>process.platform\<close> (the same as \<^verbatim>\<open>os.platform()\<close>)
  and the two functions of Node's \<^verbatim>\<open>path\<close> module that the plug-in calls.  The module
  is not part of the repository, so the general results below hold for every such pair of
  functions; concrete instances follow further down.
\<close>

record host =
  platform :: platform
  isAbsolute :: "string \<Rightarrow> bool"
  relative :: "string \<Rightarrow> string \<Rightarrow> error + string"

abbreviation backslash :: char where
  "backslash \<equiv> CHR 0x5C"

section \<open>Settings\<close>

text \<open>
  Modelled from the spec: the types \<^verbatim>\<open>PluginSettings\<close>, \<^verbatim>\<open>Settings\<close> and
  \<^verbatim>\<open>PathFilter\<close> are declared in \<^verbatim>\<open>client/src/shared_types\<close>, which is not among
  the sources.  The records follow the data model of the specification (a path filter
  \<^verbatim>\<open>{workspace, enabled, disabled}\<close>; project settings with \<^verbatim>\<open>workspace\<close>, an
  optional \<^verbatim>\<open>hasDenoConfig\<close>, an optional list \<^verbatim>\<open>pathFilters\<close> and an optional map
  \<^verbatim>\<open>documents[path] -> {settings: {enable}}\<close>) and the accesses the plug-in makes:
  it tests \<^verbatim>\<open>pathFilters\<close>, \<^verbatim>\<open>documents\<close>, \<^verbatim>\<open>workspace\<close> and a filter's
  \<^verbatim>\<open>enabled\<close> for presence, and iterates a filter's \<^verbatim>\<open>disabled\<close> without a test.
  The workspace settings are an object with any fields, since
  \<^verbatim>\<open>Object.assign\<close> copies whatever fields it finds.
\<close>

record PathFilter =
  pf_workspace :: string
  pf_disabled :: "string list"
  pf_enabled :: "string list option"

record DocumentSettings =
  settings :: "string \<rightharpoonup> jsval"

record PluginSettings =
  workspace :: "(string \<rightharpoonup> jsval) option"
  documents :: "(string \<rightharpoonup> DocumentSettings) option"
  hasDenoConfig :: "bool option"
  pathFilters :: "PathFilter list option"

datatype logmsg = LogStr string | LogArgs "val list" | LogConfigurationChanged PluginSettings

text \<open>
  The state the plug-in reads and writes: the two module-level variables
  \<^verbatim>\<open>projectSettings\<close> and \<^verbatim>\<open>defaultSettings\<close>, the lines handed to the logger, the
  calls of \<^verbatim>\<open>project.refreshDiagnostics()\<close> made so far (by project name, oldest first),
  the callbacks queued with \<^verbatim>\<open>setImmediate\<close> (each refreshes the named project), and
  the heap of objects with the next free reference.
\<close>

record state =
  projectSettings :: "string \<rightharpoonup> PluginSettings"
  defaultSettings :: "string \<rightharpoonup> jsval"
  logged :: "logmsg list list"
  refreshDiagnostics :: "string list"
  immediates :: "string list"
  heap :: "nat \<rightharpoonup> obj"
  next_ref :: nat

section \<open>The path ancestry test\<close>

fun is_sep :: "platform \<Rightarrow> char \<Rightarrow> bool" where
  "is_sep Win32 c = (c = CHR ''/'' \<or> c = backslash)"
| "is_sep Posix c = (c = CHR ''/'')"

text \<open>
  \<^verbatim>\<open>PARENT_RELATIVE_REGEX\<close> is \<^verbatim>\<open>/\.\.(?:[/\\]|$)/\<close> on win32 and
  \<^verbatim>\<open>/\.\.(?:\/|$)/\<close> elsewhere.  \<open>parent_relative_at\<close> is the pattern matched at
  the head of a string: two dots, then a separator or the end of the input.  The regular
  expression carries no \<^verbatim>\<open>^\<close>, so \<^verbatim>\<open>String.prototype.match\<close> tries every position.
\<close>

fun parent_relative_at :: "platform \<Rightarrow> string \<Rightarrow> bool" where
  "parent_relative_at plat (a # b # rest) =
     (a = CHR ''.'' \<and> b = CHR ''.'' \<and> (case rest of [] \<Rightarrow> True | c # _ \<Rightarrow> is_sep plat c))"
| "parent_relative_at plat _ = False"

fun PARENT_RELATIVE_REGEX :: "platform \<Rightarrow> string \<Rightarrow> bool" where
  "PARENT_RELATIVE_REGEX plat [] = False"
| "PARENT_RELATIVE_REGEX plat (c # cs) =
     (parent_relative_at plat (c # cs) \<or> PARENT_RELATIVE_REGEX plat cs)"

definition pathStartsWith :: "host \<Rightarrow> string \<Rightarrow> string \<Rightarrow> error + bool" where
  "pathStartsWith h child parent =
     (if isAbsolute h child \<noteq> isAbsolute h parent then Inr False
      else case relative h parent child of
             Inl e \<Rightarrow> Inl e
           | Inr rel \<Rightarrow> Inr (\<not> PARENT_RELATIVE_REGEX (platform h) rel))"

section \<open>Node's path module on POSIX\<close>

text \<open>
  \<^verbatim>\<open>path.posix\<close> as Node documents it, on path segments.  \<^verbatim>\<open>path.resolve\<close> puts the
  working directory in front of a path that does not start with \<^verbatim>\<open>/\<close> and normalises:
  empty and \<^verbatim>\<open>.\<close> segments vanish, \<^verbatim>\<open>..\<close> removes the segment before it and cannot
  climb above the root.  \<^verbatim>\<open>path.relative\<close> returns the empty string for equal
  arguments before it resolves anything; otherwise it resolves both, drops their common
  leading segments, and answers one \<^verbatim>\<open>..\<close> for each segment left of \<open>from\<close>
  followed by what is left of \<open>to\<close>.  The working directory is \<open>None\<close> when
  \<^verbatim>\<open>process.cwd()\<close> throws.
\<close>

definition posix_isAbsolute :: "string \<Rightarrow> bool" where
  "posix_isAbsolute p = (case p of [] \<Rightarrow> False | c # _ \<Rightarrow> c = CHR ''/'')"

fun split_segments :: "(char \<Rightarrow> bool) \<Rightarrow> string \<Rightarrow> string list" where
  "split_segments sep [] = [[]]"
| "split_segments sep (c # cs) =
     (if sep c then [] # split_segments sep cs
      else case split_segments sep cs of
             s # ss \<Rightarrow> (c # s) # ss
           | [] \<Rightarrow> [[c]])"

fun join_with :: "char \<Rightarrow> string list \<Rightarrow> string" where
  "join_with s [] = []"
| "join_with s [x] = x"
| "join_with s (x # y # ys) = x @ s # join_with s (y # ys)"

definition normalize_step :: "bool \<Rightarrow> string list \<Rightarrow> string \<Rightarrow> string list" where
  "normalize_step allowAboveRoot res seg =
     (if seg = [] \<or> seg = ''.'' then res
      else if seg = ''..'' then
        (if res = [] \<or> last res = ''..''
         then (if allowAboveRoot then res @ [''..''] else res)
         else butlast res)
      else res @ [seg])"

definition normalizeString :: "bool \<Rightarrow> (char \<Rightarrow> bool) \<Rightarrow> string \<Rightarrow> string list" where
  "normalizeString allowAboveRoot sep p =
     foldl (normalize_step allowAboveRoot) [] (split_segments sep p)"

definition posix_resolve :: "string option \<Rightarrow> string \<Rightarrow> error + string" where
  "posix_resolve cwd p =
     (if posix_isAbsolute p
      then Inr (CHR ''/'' # join_with (CHR ''/'') (normalizeString False (is_sep Posix) p))
      else case cwd of
             None \<Rightarrow> Inl CwdError
           | Some c \<Rightarrow>
               (let resolvedAbsolute = posix_isAbsolute c;
                    segs = normalizeString (\<not> resolvedAbsolute) (is_sep Posix) (c @ ''/'' @ p)
                in if resolvedAbsolute then Inr (CHR ''/'' # join_with (CHR ''/'') segs)
                   else if segs = [] then Inr ''.''
                   else Inr (join_with (CHR ''/'') segs)))"

fun strip_common :: "string list \<Rightarrow> string list \<Rightarrow> string list \<times> string list" where
  "strip_common (a # as) (b # bs) =
     (if a = b then strip_common as bs else (a # as, b # bs))"
| "strip_common as bs = (as, bs)"

definition resolved_segments :: "string \<Rightarrow> string list" where
  "resolved_segments p = filter (\<lambda>s. s \<noteq> []) (split_segments (is_sep Posix) (drop 1 p))"

definition posix_relative :: "string option \<Rightarrow> string \<Rightarrow> string \<Rightarrow> error + string" where
  "posix_relative cwd from_path to_path =
     (if from_path = to_path then Inr []
      else case posix_resolve cwd from_path of
             Inl e \<Rightarrow> Inl e
           | Inr f \<Rightarrow>
               (case posix_resolve cwd to_path of
                  Inl e \<Rightarrow> Inl e
                | Inr t \<Rightarrow>
                    if f = t then Inr []
                    else (case strip_common (resolved_segments f) (resolved_segments t) of
                            (fs, ts) \<Rightarrow>
                              Inr (join_with (CHR ''/'') (map (\<lambda>_. ''..'') fs @ ts)))))"

definition posix_host :: "string option \<Rightarrow> host" where
  "posix_host cwd = \<lparr>platform = Posix, isAbsolute = posix_isAbsolute, relative = posix_relative cwd\<rparr>"

section \<open>The settings store\<close>

text \<open>
  \<^verbatim>\<open>defaultSettings\<close> as the module initialises it.
\<close>

definition initial_defaultSettings :: "string \<rightharpoonup> jsval" where
  "initial_defaultSettings = map_of
     [(''cache'', JNull),
      (''cacheOnSave'', JBool False),
      (''certificateStores'', JNull),
      (''enable'', JNull),
      (''disablePaths'', JArr []),
      (''enablePaths'', JArr []),
      (''codeLens'', JNull),
      (''config'', JNull),
      (''documentPreloadLimit'', JNull),
      (''maxTsServerMemory'', JNull),
      (''importMap'', JNull),
      (''inlayHints'', JNull),
      (''internalDebug'', JBool False),
      (''lint'', JBool False),
      (''logFile'', JBool False),
      (''path'', JNull),
      (''suggest'', JObj
         [(''autoImports'', JBool True),
          (''completeFunctionCalls'', JBool False),
          (''names'', JBool True),
          (''paths'', JBool True),
          (''imports'', JObj [(''autoDiscover'', JBool True), (''hosts'', JObj [])])]),
      (''testing'', JNull),
      (''tlsCertificate'', JNull),
      (''unsafelyIgnoreCertificateErrors'', JNull),
      (''unstable'', JBool False)]"

definition initial_state :: state where
  "initial_state =
     \<lparr>projectSettings = Map.empty, defaultSettings = initial_defaultSettings, logged = [],
      refreshDiagnostics = [], immediates = [], heap = Map.empty, next_ref = 0\<rparr>"

text \<open>
  \<^verbatim>\<open>updateSettings(project, settings)\<close>: \<^verbatim>\<open>projectSettings.set\<close> under the project's
  name, then \<^verbatim>\<open>Object.assign(defaultSettings, settings.workspace)\<close>, which copies every
  own property of its source and does nothing for an \<^verbatim>\<open>undefined\<close> source.  A project
  is identified by the name \<^verbatim>\<open>getProjectName()\<close> returns.
\<close>

definition updateSettings :: "string \<Rightarrow> PluginSettings \<Rightarrow> state \<Rightarrow> state" where
  "updateSettings project stg st =
     st\<lparr>projectSettings := (projectSettings st)(project \<mapsto> stg),
        defaultSettings := (case workspace stg of
                              None \<Rightarrow> defaultSettings st
                            | Some ws \<Rightarrow> defaultSettings st ++ ws)\<rparr>"

section \<open>Enablement\<close>

text \<open>
  The truth value JavaScript gives a settings value, and the operand of \<^verbatim>\<open>??\<close> read
  from an \<^verbatim>\<open>enable\<close> property: \<open>None\<close> when the property is absent or
  \<^verbatim>\<open>null\<close>.  \<^verbatim>\<open>enable\<close> is declared \<^verbatim>\<open>boolean | null\<close>; a value of another
  kind would flow through \<^verbatim>\<open>??\<close> unchanged and only ever be tested by a conditional,
  so it is read as its truth value.
\<close>

fun truthy :: "jsval \<Rightarrow> bool" where
  "truthy JNull = False"
| "truthy (JBool b) = b"
| "truthy (JNum n) = (n \<noteq> 0)"
| "truthy (JStr s) = (s \<noteq> [])"
| "truthy (JArr _) = True"
| "truthy (JObj _) = True"

fun enable_value :: "jsval option \<Rightarrow> bool option" where
  "enable_value None = None"
| "enable_value (Some JNull) = None"
| "enable_value (Some v) = Some (truthy v)"

text \<open>\<^verbatim>\<open>pluginSettings?.workspace?.enable\<close> and \<^verbatim>\<open>pluginSettings?.hasDenoConfig\<close>.\<close>

definition workspace_enable :: "PluginSettings option \<Rightarrow> jsval option" where
  "workspace_enable pluginSettings =
     (case pluginSettings of
        None \<Rightarrow> None
      | Some ps \<Rightarrow> (case workspace ps of None \<Rightarrow> None | Some ws \<Rightarrow> ws ''enable''))"

definition settings_hasDenoConfig :: "PluginSettings option \<Rightarrow> bool option" where
  "settings_hasDenoConfig pluginSettings =
     (case pluginSettings of None \<Rightarrow> None | Some ps \<Rightarrow> hasDenoConfig ps)"

definition denoEnabled :: "state \<Rightarrow> string \<Rightarrow> bool" where
  "denoEnabled st projectName =
     (let pluginSettings = projectSettings st projectName;
          enable = (case enable_value (workspace_enable pluginSettings) of
                      Some b \<Rightarrow> Some b
                    | None \<Rightarrow> enable_value (defaultSettings st ''enable''));
          hasDenoConfig' = (case settings_hasDenoConfig pluginSettings of
                              Some b \<Rightarrow> b
                            | None \<Rightarrow> False)
      in case enable of Some b \<Rightarrow> b | None \<Rightarrow> hasDenoConfig')"

text \<open>
  \<^verbatim>\<open>fileName.replace(/\//g, "\\")\<close>, done on win32 only.
\<close>

definition normalizeFileName :: "host \<Rightarrow> string \<Rightarrow> string" where
  "normalizeFileName h fileName =
     (if platform h = Win32
      then map (\<lambda>c. if c = CHR ''/'' then backslash else c) fileName
      else fileName)"

text \<open>
  \<^verbatim>\<open>pathFilters.find(({ workspace }) => pathStartsWith(fileName, workspace))\<close>: the first
  filter whose test succeeds; a throw inside the test ends the search.
\<close>

fun find_pathFilter :: "host \<Rightarrow> string \<Rightarrow> PathFilter list \<Rightarrow> error + PathFilter option" where
  "find_pathFilter h fileName [] = Inr None"
| "find_pathFilter h fileName (pf # pfs) =
     (case pathStartsWith h fileName (pf_workspace pf) of
        Inl e \<Rightarrow> Inl e
      | Inr True \<Rightarrow> Inr (Some pf)
      | Inr False \<Rightarrow> find_pathFilter h fileName pfs)"

text \<open>
  The loop over \<^verbatim>\<open>pathFilter.disabled\<close> and \<^verbatim>\<open>pathFilter.enabled.some(...)\<close> both stop
  at the first path the file name starts with.
\<close>

fun some_pathStartsWith :: "host \<Rightarrow> string \<Rightarrow> string list \<Rightarrow> error + bool" where
  "some_pathStartsWith h fileName [] = Inr False"
| "some_pathStartsWith h fileName (p # ps) =
     (case pathStartsWith h fileName p of
        Inl e \<Rightarrow> Inl e
      | Inr True \<Rightarrow> Inr True
      | Inr False \<Rightarrow> some_pathStartsWith h fileName ps)"

text \<open>\<^verbatim>\<open>settings?.documents?.[fileName]?.settings.enable\<close>.\<close>

definition document_enable :: "PluginSettings option \<Rightarrow> string \<Rightarrow> jsval option" where
  "document_enable stg fileName =
     (case stg of
        None \<Rightarrow> None
      | Some s \<Rightarrow>
          (case documents s of
             None \<Rightarrow> None
           | Some docs \<Rightarrow>
               (case docs fileName of None \<Rightarrow> None | Some d \<Rightarrow> settings d ''enable'')))"

definition settings_pathFilters :: "PluginSettings option \<Rightarrow> PathFilter list option" where
  "settings_pathFilters stg = (case stg of None \<Rightarrow> None | Some s \<Rightarrow> pathFilters s)"

definition fileNameDenoEnabled :: "host \<Rightarrow> state \<Rightarrow> string \<Rightarrow> string \<Rightarrow> error + bool" where
  "fileNameDenoEnabled h st projectName fileName0 =
     (let fileName = normalizeFileName h fileName0;
          stg = projectSettings st projectName;
          fallthrough = (case enable_value (document_enable stg fileName) of
                           Some b \<Rightarrow> b
                         | None \<Rightarrow> denoEnabled st projectName)
      in case settings_pathFilters stg of
           None \<Rightarrow> Inr fallthrough
         | Some filters \<Rightarrow>
             (case find_pathFilter h fileName filters of
                Inl e \<Rightarrow> Inl e
              | Inr None \<Rightarrow> Inr fallthrough
              | Inr (Some pathFilter) \<Rightarrow>
                  (case some_pathStartsWith h fileName (pf_disabled pathFilter) of
                     Inl e \<Rightarrow> Inl e
                   | Inr True \<Rightarrow> Inr False
                   | Inr False \<Rightarrow>
                       (case pf_enabled pathFilter of
                          Some en \<Rightarrow> some_pathStartsWith h fileName en
                        | None \<Rightarrow> Inr fallthrough))))"

section \<open>The interception factory\<close>

text \<open>
  \<^verbatim>\<open>this.#log(...msgs)\<close> hands one line to the project's logger; the line is kept as
  the messages it was built from.
\<close>

definition log :: "logmsg list \<Rightarrow> state \<Rightarrow> state" where
  "log msgs st = st\<lparr>logged := logged st @ [msgs]\<rparr>"

text \<open>An array or object literal allocates a new object.\<close>

definition alloc :: "obj \<Rightarrow> state \<Rightarrow> val \<times> state" where
  "alloc ob st =
     (VRef (next_ref st),
      st\<lparr>heap := (heap st)(next_ref st \<mapsto> ob), next_ref := Suc (next_ref st)\<rparr>)"

text \<open>
  A method of the language service takes its arguments and may read and change the state;
  it returns a value or throws.  The methods of the project that list errors take no
  argument.
\<close>

type_synonym ls_method = "val list \<Rightarrow> state \<Rightarrow> (error + val) \<times> state"

type_synonym project_method = "state \<Rightarrow> (error + val) \<times> state"

text \<open>
  The third argument of \<^verbatim>\<open>callIfDisabled\<close>, by the branch the wrapper takes on it:
  an array (\<^verbatim>\<open>Array.isArray(emptyReturn)\<close>; every such call site passes the literal
  \<^verbatim>\<open>[]\<close>), a function (\<^verbatim>\<open>typeof emptyReturn === "function"\<close>), or any other value,
  which is returned as it is (every such call site passes \<^verbatim>\<open>undefined\<close>).
\<close>

datatype emptyReturn =
    EmptyArray
  | EmptyProducer "state \<Rightarrow> val \<times> state"
  | EmptyValue val

definition fresh_emptyReturn :: "emptyReturn \<Rightarrow> state \<Rightarrow> val \<times> state" where
  "fresh_emptyReturn emptyReturn st =
     (case emptyReturn of
        EmptyArray \<Rightarrow> alloc (OArray []) st
      | EmptyProducer f \<Rightarrow> f st
      | EmptyValue v \<Rightarrow> (v, st))"

text \<open>
  \<^verbatim>\<open>const enabled = fileNameArg !== undefined ? this.#fileNameDenoEnabled(args[fileNameArg]
  as string) : this.#denoEnabled()\<close>.  An argument list without a string at the declared
  position is outside the parameter types of the wrapped method.
\<close>

definition resolve_enabled ::
  "host \<Rightarrow> state \<Rightarrow> string \<Rightarrow> nat option \<Rightarrow> val list \<Rightarrow> error + bool" where
  "resolve_enabled h st projectName fileNameArg args =
     (case fileNameArg of
        None \<Rightarrow> Inr (denoEnabled st projectName)
      | Some i \<Rightarrow>
          (if i < length args
           then (case args ! i of
                   VStr fileName \<Rightarrow> fileNameDenoEnabled h st projectName fileName
                 | _ \<Rightarrow> Inl ArgTypeError)
           else Inl ArgTypeError))"

text \<open>
  \<^verbatim>\<open>callIfDisabled(fn, fileNameArg, emptyReturn)\<close> returns the wrapper
  \<^verbatim>\<open>(...args) => { this.#log(fn, args); ...; return enabled ? <fresh emptyReturn> :
  target.call(ls, ...args) }\<close>, where \<^verbatim>\<open>target\<close> is \<^verbatim>\<open>ls[fn]\<close>.
\<close>

definition callIfDisabled ::
  "host \<Rightarrow> string \<Rightarrow> (string \<Rightarrow> ls_method) \<Rightarrow> string \<Rightarrow> nat option \<Rightarrow> emptyReturn \<Rightarrow> ls_method" where
  "callIfDisabled h projectName ls fn fileNameArg emptyReturn args st =
     (let st1 = log [LogStr fn, LogArgs args] st
      in case resolve_enabled h st1 projectName fileNameArg args of
           Inl e \<Rightarrow> (Inl e, st1)
         | Inr True \<Rightarrow> (case fresh_emptyReturn emptyReturn st1 of (v, st2) \<Rightarrow> (Inr v, st2))
         | Inr False \<Rightarrow> ls fn args st1)"

text \<open>
  The two producers passed at the call sites:
  \<^verbatim>\<open>() => ({ spans: [], endOfLineState: 0 })\<close> and the empty navigation tree.
\<close>

definition emptyClassifications :: "state \<Rightarrow> val \<times> state" where
  "emptyClassifications st =
     (case alloc (OArray []) st of
        (spans, st1) \<Rightarrow> alloc (OObject [(''spans'', spans), (''endOfLineState'', VNum 0)]) st1)"

definition emptyNavigationTree :: "state \<Rightarrow> val \<times> state" where
  "emptyNavigationTree st =
     (case alloc (OArray []) st of
        (spans, st1) \<Rightarrow>
          alloc (OObject [(''text'', VStr []), (''kind'', VStr []), (''kindModifiers'', VStr []),
                          (''spans'', spans), (''nameSpan'', VUndefined)]) st1)"

text \<open>The calls of \<^verbatim>\<open>callIfDisabled\<close> in \<^verbatim>\<open>create\<close>, in source order.\<close>

definition wrapped_operations :: "(string \<times> nat option \<times> emptyReturn) list" where
  "wrapped_operations =
     [(''commentSelection'', Some 0, EmptyArray),
      (''findReferences'', Some 0, EmptyValue VUndefined),
      (''findRenameLocations'', Some 0, EmptyValue VUndefined),
      (''getApplicableRefactors'', Some 0, EmptyArray),
      (''getBraceMatchingAtPosition'', Some 0, EmptyArray),
      (''getBreakpointStatementAtPosition'', Some 0, EmptyValue VUndefined),
      (''getCodeFixesAtPosition'', Some 0, EmptyArray),
      (''getCompilerOptionsDiagnostics'', None, EmptyArray),
      (''getCompletionEntryDetails'', Some 0, EmptyValue VUndefined),
      (''getCompletionEntrySymbol'', Some 0, EmptyValue VUndefined),
      (''getCompletionsAtPosition'', Some 0, EmptyValue VUndefined),
      (''getDefinitionAndBoundSpan'', Some 0, EmptyValue VUndefined),
      (''getDefinitionAtPosition'', Some 0, EmptyValue VUndefined),
      (''getDocCommentTemplateAtPosition'', Some 0, EmptyValue VUndefined),
      (''getDocumentHighlights'', Some 0, EmptyValue VUndefined),
      (''getEditsForFileRename'', Some 0, EmptyArray),
      (''getEditsForRefactor'', Some 0, EmptyValue VUndefined),
      (''getEncodedSemanticClassifications'', Some 0, EmptyProducer emptyClassifications),
      (''getEncodedSyntacticClassifications'', Some 0, EmptyProducer emptyClassifications),
      (''getImplementationAtPosition'', Some 0, EmptyValue VUndefined),
      (''getJsxClosingTagAtPosition'', Some 0, EmptyValue VUndefined),
      (''getNameOrDottedNameSpan'', Some 0, EmptyValue VUndefined),
      (''getNavigateToItems'', None, EmptyArray),
      (''getNavigationBarItems'', Some 0, EmptyArray),
      (''getNavigationTree'', Some 0, EmptyProducer emptyNavigationTree),
      (''getOutliningSpans'', Some 0, EmptyArray),
      (''getQuickInfoAtPosition'', Some 0, EmptyValue VUndefined),
      (''getReferencesAtPosition'', Some 0, EmptyValue VUndefined),
      (''getSemanticClassifications'', Some 0, EmptyArray),
      (''getSemanticDiagnostics'', Some 0, EmptyArray),
      (''getSignatureHelpItems'', Some 0, EmptyValue VUndefined),
      (''getSpanOfEnclosingComment'', Some 0, EmptyValue VUndefined),
      (''getSuggestionDiagnostics'', Some 0, EmptyArray),
      (''getSyntacticDiagnostics'', Some 0, EmptyArray),
      (''getSyntacticClassifications'', Some 0, EmptyArray),
      (''getTodoComments'', Some 0, EmptyArray),
      (''getTypeDefinitionAtPosition'', Some 0, EmptyValue VUndefined),
      (''prepareCallHierarchy'', Some 0, EmptyValue VUndefined),
      (''provideCallHierarchyIncomingCalls'', Some 0, EmptyArray),
      (''provideCallHierarchyOutgoingCalls'', Some 0, EmptyArray),
      (''provideInlayHints'', Some 0, EmptyArray),
      (''toggleLineComment'', Some 0, EmptyArray),
      (''toggleMultilineComment'', Some 0, EmptyArray),
      (''uncommentSelection'', Some 0, EmptyArray)]"

text \<open>
  The language service \<^verbatim>\<open>create\<close> returns: \<^verbatim>\<open>{ ...ls, commentSelection, ... }\<close>.
\<close>

definition create_service :: "host \<Rightarrow> string \<Rightarrow> (string \<Rightarrow> ls_method) \<Rightarrow> string \<Rightarrow> ls_method" where
  "create_service h projectName ls fn =
     (case map_of wrapped_operations fn of
        Some (fileNameArg, emptyReturn) \<Rightarrow> callIfDisabled h projectName ls fn fileNameArg emptyReturn
      | None \<Rightarrow> ls fn)"

text \<open>
  The replacements \<^verbatim>\<open>create\<close> installs for \<^verbatim>\<open>project.getGlobalProjectErrors\<close> and
  \<^verbatim>\<open>project.getAllProjectErrors\<close>; the second argument is the method they replace.
\<close>

definition getGlobalProjectErrors :: "string \<Rightarrow> project_method \<Rightarrow> project_method" where
  "getGlobalProjectErrors projectName projectGetGlobalProjectErrors st =
     (if denoEnabled st projectName
      then (case alloc (OArray []) st of (v, st1) \<Rightarrow> (Inr v, st1))
      else projectGetGlobalProjectErrors st)"

definition getAllProjectErrors :: "string \<Rightarrow> project_method \<Rightarrow> project_method" where
  "getAllProjectErrors projectName projectGetAllProjectErrors st =
     (if denoEnabled st projectName
      then (case alloc (OArray []) st of (v, st1) \<Rightarrow> (Inr v, st1))
      else projectGetAllProjectErrors st)"

section \<open>The configuration protocol\<close>

text \<open>
  What \<^verbatim>\<open>create\<close> does to the state: \<^verbatim>\<open>updateSettings(this.#project, config)\<close> and a
  callback queued with \<^verbatim>\<open>setImmediate\<close>.  \<open>run_immediates\<close> is the event loop
  running the queued callbacks.
\<close>

definition create :: "string \<Rightarrow> PluginSettings \<Rightarrow> state \<Rightarrow> state" where
  "create project config st =
     (let st1 = updateSettings project config st
      in st1\<lparr>immediates := immediates st1 @ [project]\<rparr>)"

definition run_immediates :: "state \<Rightarrow> state" where
  "run_immediates st =
     st\<lparr>refreshDiagnostics := refreshDiagnostics st @ immediates st, immediates := []\<rparr>"

definition onConfigurationChanged :: "string \<Rightarrow> PluginSettings \<Rightarrow> state \<Rightarrow> state" where
  "onConfigurationChanged project stg st =
     (let st1 = log [LogConfigurationChanged stg] st;
          st2 = updateSettings project stg st1
      in st2\<lparr>refreshDiagnostics := refreshDiagnostics st2 @ [project]\<rparr>)"

section \<open>Node's path module on Windows, for paths with a drive\<close>

text \<open>
  \<^verbatim>\<open>path.win32\<close> accepts both \<^verbatim>\<open>/\<close> and \<^verbatim>\<open>\\<close> as separators, answers with
  \<^verbatim>\<open>\\<close>, and compares without regard to case.  \<open>win32_isAbsolute\<close> is the whole
  function.  \<open>win32_relative\<close> is \<^verbatim>\<open>path.win32.relative\<close> on paths that start with a
  drive letter, a colon and a separator; what it answers for UNC paths and for paths
  relative to the working directory of the process or of a drive depends on state of the
  host that is not represented here, and those inputs give \<open>NotModelled\<close>.
\<close>

definition isWindowsDeviceRoot :: "char \<Rightarrow> bool" where
  "isWindowsDeviceRoot c =
     (let n = (of_char c :: nat) in (65 \<le> n \<and> n \<le> 90) \<or> (97 \<le> n \<and> n \<le> 122))"

definition toLowerCase :: "string \<Rightarrow> string" where
  "toLowerCase s =
     map (\<lambda>c. let n = (of_char c :: nat) in if 65 \<le> n \<and> n \<le> 90 then char_of (n + 32) else c) s"

definition win32_isAbsolute :: "string \<Rightarrow> bool" where
  "win32_isAbsolute p =
     (case p of
        [] \<Rightarrow> False
      | c # rest \<Rightarrow>
          is_sep Win32 c \<or>
          (case rest of
             d # e # _ \<Rightarrow> isWindowsDeviceRoot c \<and> d = CHR '':'' \<and> is_sep Win32 e
           | _ \<Rightarrow> False))"

definition win32_resolve_drive :: "string \<Rightarrow> (string \<times> string list) option" where
  "win32_resolve_drive p =
     (case p of
        c # d # e # rest \<Rightarrow>
          if isWindowsDeviceRoot c \<and> d = CHR '':'' \<and> is_sep Win32 e
          then Some ([c, d], normalizeString False (is_sep Win32) rest)
          else None
      | _ \<Rightarrow> None)"

fun strip_common_ci :: "string list \<Rightarrow> string list \<Rightarrow> string list \<times> string list" where
  "strip_common_ci (a # as) (b # bs) =
     (if toLowerCase a = toLowerCase b then strip_common_ci as bs else (a # as, b # bs))"
| "strip_common_ci as bs = (as, bs)"

definition win32_relative :: "string \<Rightarrow> string \<Rightarrow> error + string" where
  "win32_relative from_path to_path =
     (if from_path = to_path then Inr []
      else case (win32_resolve_drive from_path, win32_resolve_drive to_path) of
             (Some (fromDevice, fromSegs), Some (toDevice, toSegs)) \<Rightarrow>
               (let fromOrig = fromDevice @ backslash # join_with backslash fromSegs;
                    toOrig = toDevice @ backslash # join_with backslash toSegs
                in if toLowerCase fromOrig = toLowerCase toOrig then Inr []
                   else if toLowerCase fromDevice \<noteq> toLowerCase toDevice then Inr toOrig
                   else (case strip_common_ci fromSegs toSegs of
                           (fs, ts) \<Rightarrow> Inr (join_with backslash (map (\<lambda>_. ''..'') fs @ ts))))
           | _ \<Rightarrow> Inl NotModelled)"

definition win32_host :: host where
  "win32_host = \<lparr>platform = Win32, isAbsolute = win32_isAbsolute, relative = win32_relative\<rparr>"

section \<open>The resolution rule as the specification words it\<close>

text \<open>
  \<open>isFileEnabled_spec\<close> follows the specification of the file-scoped check, over any
  ancestry test \<open>isAncestor child parent\<close>: the first filter whose workspace is an
  ancestor of the file path is selected; within it a disabled path above the file answers
  false, else an enabled list answers whether one of its paths is above the file; in every
  other case the per-document override is used if present, else the global enablement.
\<close>

definition isFileEnabled_spec ::
  "(string \<Rightarrow> string \<Rightarrow> bool) \<Rightarrow> PathFilter list option \<Rightarrow> bool option \<Rightarrow> bool \<Rightarrow> string \<Rightarrow> bool" where
  "isFileEnabled_spec isAncestor filters override global filePath =
     (let fallthrough = (case override of Some b \<Rightarrow> b | None \<Rightarrow> global)
      in case (case filters of
                 None \<Rightarrow> None
               | Some fs \<Rightarrow> find (\<lambda>flt. isAncestor filePath (pf_workspace flt)) fs) of
           None \<Rightarrow> fallthrough
         | Some flt \<Rightarrow>
             if (\<exists>p \<in> set (pf_disabled flt). isAncestor filePath p) then False
             else (case pf_enabled flt of
                     Some en \<Rightarrow> (\<exists>p \<in> set en. isAncestor filePath p)
                   | None \<Rightarrow> fallthrough))"

text \<open>The paths a project's filters hold, in the order the resolution may compare them.\<close>

definition filter_paths :: "PathFilter \<Rightarrow> string list" where
  "filter_paths flt =
     pf_workspace flt # pf_disabled flt @ (case pf_enabled flt of None \<Rightarrow> [] | Some en \<Rightarrow> en)"

definition compared_paths :: "PluginSettings option \<Rightarrow> string list" where
  "compared_paths stg =
     concat (map filter_paths (case settings_pathFilters stg of None \<Rightarrow> [] | Some fs \<Rightarrow> fs))"

text \<open>
  The ancestry test as the specification words it: false at once when exactly one of the
  two paths is absolute; otherwise false if the relative path from the parent to the child
  begins with (or equals) a parent-directory segment, \<^verbatim>\<open>..\<close> followed by a separator
  or the end of the string, and true otherwise.
\<close>

definition isAncestor_spec :: "host \<Rightarrow> string \<Rightarrow> string \<Rightarrow> bool" where
  "isAncestor_spec h child parent =
     (if isAbsolute h child \<noteq> isAbsolute h parent then False
      else case relative h parent child of
             Inl e \<Rightarrow> False
           | Inr rel \<Rightarrow> \<not> parent_relative_at (platform h) rel)"

text \<open>
  The pairs on which the source's test cannot depart from that wording: one path absolute
  and the other not, or a relative path in which \<^verbatim>\<open>..\<close> followed by a separator or the
  end occurs at the start if it occurs at all.
\<close>

definition ancestry_decided :: "host \<Rightarrow> string \<Rightarrow> string \<Rightarrow> bool" where
  "ancestry_decided h child parent =
     (if isAbsolute h child \<noteq> isAbsolute h parent then True
      else case relative h parent child of
             Inl e \<Rightarrow> False
           | Inr rel \<Rightarrow>
               PARENT_RELATIVE_REGEX (platform h) rel = parent_relative_at (platform h) rel)"

text \<open>
  The file path the rule is applied to: on a platform whose separator is \<^verbatim>\<open>\\\<close> the
  queried path with every \<^verbatim>\<open>/\<close> replaced by it, elsewhere the queried path.
\<close>

definition compared_name :: "platform \<Rightarrow> string \<Rightarrow> string" where
  "compared_name plat filePath =
     (case plat of
        Win32 \<Rightarrow> map (\<lambda>c. if c = CHR ''/'' then backslash else c) filePath
      | Posix \<Rightarrow> filePath)"

text \<open>The per-document override \<^verbatim>\<open>documents[path].settings.enable\<close>, if present.\<close>

definition document_override :: "PluginSettings option \<Rightarrow> string \<Rightarrow> bool option" where
  "document_override stg path =
     (case stg of
        None \<Rightarrow> None
      | Some s \<Rightarrow>
          (case documents s of
             None \<Rightarrow> None
           | Some docs \<Rightarrow>
               (case docs path of
                  None \<Rightarrow> None
                | Some d \<Rightarrow> enable_value (settings d ''enable''))))"

section \<open>Example inputs\<close>

text \<open>Settings as the extension sends them, with the given \<^verbatim>\<open>workspace.enable\<close>,
  \<^verbatim>\<open>hasDenoConfig\<close> and path filters, and no per-document entry.\<close>

definition example_settings :: "jsval \<Rightarrow> bool \<Rightarrow> PathFilter list \<Rightarrow> PluginSettings" where
  "example_settings en cfg filters =
     \<lparr>workspace = Some [''enable'' \<mapsto> en], documents = Some Map.empty,
      hasDenoConfig = Some cfg, pathFilters = Some filters\<rparr>"

text \<open>The filter \<^verbatim>\<open>{workspace:"/ws", enabled:["/ws/src"], disabled:["/ws/src/gen"]}\<close>.\<close>

definition ws_filter :: PathFilter where
  "ws_filter = \<lparr>pf_workspace = ''/ws'', pf_disabled = [''/ws/src/gen''], pf_enabled = Some [''/ws/src'']\<rparr>"

text \<open>The same filter for a workspace on drive C, written with forward slashes.\<close>

definition drive_filter :: PathFilter where
  "drive_filter = \<lparr>pf_workspace = ''C:/ws'', pf_disabled = [''C:/ws/src/gen''], pf_enabled = Some [''C:/ws/src'']\<rparr>"

text \<open>
  An underlying language service that answers every method with the string
  \<^verbatim>\<open>"engine"\<close> and leaves a line in the log, and one that answers every method with
  the array at reference 0.
\<close>

definition probe_engine :: "string \<Rightarrow> ls_method" where
  "probe_engine fn args st = (Inr (VStr ''engine''), log [LogStr ''engine'', LogStr fn] st)"

definition shared_engine :: "string \<Rightarrow> ls_method" where
  "shared_engine fn args st = (Inr (VRef 0), st)"

definition shared_state :: "state \<Rightarrow> state" where
  "shared_state st = st\<lparr>heap := [0 \<mapsto> OArray [VStr ''diagnostic'']], next_ref := 1\<rparr>"

text \<open>A project method that answers the array at reference 0.\<close>

definition shared_errors :: project_method where
  "shared_errors st = (Inr (VRef 0), st)"

text \<open>
  Project \<^verbatim>\<open>p\<close> with \<^verbatim>\<open>workspace.enable\<close> set to true, and with it set to false, on
  an otherwise fresh store.
\<close>

definition st_on :: state where
  "st_on = updateSettings ''p'' (example_settings (JBool True) False []) initial_state"

definition st_off :: state where
  "st_off = updateSettings ''p'' (example_settings (JBool False) False []) initial_state"

text \<open>
  Project \<^verbatim>\<open>p\<close> with \<^verbatim>\<open>workspace.enable\<close> null, no configuration file and one path
  filter: the POSIX one, and the one on drive C.
\<close>

definition st_ws :: state where
  "st_ws = updateSettings ''p'' (example_settings JNull False [ws_filter]) initial_state"

definition st_drive :: state where
  "st_drive = updateSettings ''p'' (example_settings JNull False [drive_filter]) initial_state"

text \<open>
  Two projects: \<^verbatim>\<open>B\<close> reports \<^verbatim>\<open>workspace.enable\<close> null, then \<^verbatim>\<open>A\<close> reports it
  true (\<open>st_other_on\<close>, where \<^verbatim>\<open>B\<close> has no configuration file) or false
  (\<open>st_other_off\<close>, where \<^verbatim>\<open>B\<close> has one).
\<close>

definition st_other_on :: state where
  "st_other_on =
     updateSettings ''A'' (example_settings (JBool True) False [])
       (updateSettings ''B'' (example_settings JNull False []) initial_state)"

definition st_other_off :: state where
  "st_other_off =
     updateSettings ''A'' (example_settings (JBool False) False [])
       (updateSettings ''B'' (example_settings JNull True []) initial_state)"

text \<open>A per-document entry that enables Deno for the document.\<close>

definition doc_on :: DocumentSettings where
  "doc_on = \<lparr>settings = [''enable'' \<mapsto> JBool True]\<rparr>"

text \<open>The file name \<^verbatim>\<open>C:/ws/src/app.ts\<close> after the replacement done on win32.\<close>

definition app_ts_win :: string where
  "app_ts_win = ''C:'' @ backslash # ''ws'' @ backslash # ''src'' @ backslash # ''app.ts''"

text \<open>
  Project \<^verbatim>\<open>p\<close> with \<^verbatim>\<open>workspace.enable\<close> null, no configuration file, no path
  filter, and a per-document entry that enables Deno under the key
  \<^verbatim>\<open>C:/ws/src/app.ts\<close>.
\<close>

definition st_documents :: state where
  "st_documents =
     updateSettings ''p''
       ((example_settings JNull False [])\<lparr>documents := Some [''C:/ws/src/app.ts'' \<mapsto> doc_on]\<rparr>)
       initial_state"

section \<open>Auxiliary facts\<close>

lemmas posix_path_defs =
  posix_host_def posix_isAbsolute_def posix_relative_def posix_resolve_def
  normalizeString_def normalize_step_def resolved_segments_def

lemmas example_state_defs =
  updateSettings_def example_settings_def initial_state_def

lemmas enablement_defs =
  fileNameDenoEnabled_def denoEnabled_def workspace_enable_def settings_hasDenoConfig_def
  settings_pathFilters_def document_enable_def normalizeFileName_def Let_def

lemma posix_host_sel [simp]:
  "platform (posix_host cwd) = Posix"
  "isAbsolute (posix_host cwd) = posix_isAbsolute"
  "relative (posix_host cwd) = posix_relative cwd"
  by (simp_all add: posix_host_def)

text \<open>The enablement checks read the two settings variables and nothing else.\<close>

lemma denoEnabled_cong:
  "projectSettings st' = projectSettings st \<Longrightarrow> defaultSettings st' = defaultSettings st \<Longrightarrow>
   denoEnabled st' proj = denoEnabled st proj"
  by (auto simp: denoEnabled_def Let_def split: option.splits)

lemma fileNameDenoEnabled_cong:
  "projectSettings st' = projectSettings st \<Longrightarrow> defaultSettings st' = defaultSettings st \<Longrightarrow>
   fileNameDenoEnabled h st' proj f = fileNameDenoEnabled h st proj f"
  by (simp add: fileNameDenoEnabled_def denoEnabled_cong [of st' st] cong: option.case_cong)

lemma resolve_enabled_cong:
  "projectSettings st' = projectSettings st \<Longrightarrow> defaultSettings st' = defaultSettings st \<Longrightarrow>
   resolve_enabled h st' proj i args = resolve_enabled h st proj i args"
  by (simp add: resolve_enabled_def fileNameDenoEnabled_cong [of st' st] denoEnabled_cong [of st' st]
      cong: option.case_cong val.case_cong if_cong)

lemma log_fields [simp]:
  "projectSettings (log m st) = projectSettings st"
  "defaultSettings (log m st) = defaultSettings st"
  "heap (log m st) = heap st"
  "next_ref (log m st) = next_ref st"
  "refreshDiagnostics (log m st) = refreshDiagnostics st"
  "immediates (log m st) = immediates st"
  "logged (log m st) = logged st @ [m]"
  by (simp_all add: log_def)

lemma denoEnabled_log [simp]: "denoEnabled (log m st) proj = denoEnabled st proj"
  by (rule denoEnabled_cong) simp_all

lemma resolve_enabled_log [simp]:
  "resolve_enabled h (log m st) proj i args = resolve_enabled h st proj i args"
  by (rule resolve_enabled_cong) simp_all

lemma shared_state_fields [simp]:
  "projectSettings (shared_state st) = projectSettings st"
  "defaultSettings (shared_state st) = defaultSettings st"
  "heap (shared_state st) = [0 \<mapsto> OArray [VStr ''diagnostic'']]"
  "next_ref (shared_state st) = 1"
  "logged (shared_state st) = logged st"
  by (simp_all add: shared_state_def)

lemma denoEnabled_shared_state [simp]: "denoEnabled (shared_state st) proj = denoEnabled st proj"
  by (rule denoEnabled_cong) simp_all

lemma fileNameDenoEnabled_shared_state [simp]:
  "fileNameDenoEnabled h (shared_state st) proj f = fileNameDenoEnabled h st proj f"
  by (rule fileNameDenoEnabled_cong) simp_all

lemma resolve_enabled_shared_state [simp]:
  "resolve_enabled h (shared_state st) proj i args = resolve_enabled h st proj i args"
  by (rule resolve_enabled_cong) simp_all

lemma st_on_enabled:
  "denoEnabled st_on ''p'' = True"
  "fileNameDenoEnabled (posix_host cwd) st_on ''p'' f = Inr True"
  by (simp_all add: st_on_def example_state_defs enablement_defs)

lemma st_off_disabled:
  "denoEnabled st_off ''p'' = False"
  "fileNameDenoEnabled (posix_host cwd) st_off ''p'' f = Inr False"
  by (simp_all add: st_off_def example_state_defs enablement_defs)

section \<open>The path ancestry test: properties\<close>

lemma pathStartsWith_false_iff:
  "pathStartsWith h child parent = Inr False \<longleftrightarrow>
     (isAbsolute h child \<noteq> isAbsolute h parent \<or>
      (\<exists>rel. relative h parent child = Inr rel \<and> PARENT_RELATIVE_REGEX (platform h) rel))"
  by (auto simp: pathStartsWith_def split: sum.splits)

lemma pathStartsWith_self: "pathStartsWith (posix_host cwd) p p = Inr True"
  by (simp add: pathStartsWith_def posix_relative_def)

text \<open>
  On POSIX \<^verbatim>\<open>path.relative\<close> answers whenever the working directory is available, and
  for absolute paths in any case.
\<close>

lemma posix_resolve_total:
  "cwd \<noteq> None \<or> posix_isAbsolute p \<Longrightarrow> \<exists>r. posix_resolve cwd p = Inr r"
  by (cases cwd) (simp_all add: posix_resolve_def Let_def)

lemma posix_relative_total:
  assumes "cwd \<noteq> None \<or> (posix_isAbsolute a \<and> posix_isAbsolute b)"
  shows "\<exists>r. posix_relative cwd a b = Inr r"
proof -
  from assms obtain f t where "posix_resolve cwd a = Inr f" "posix_resolve cwd b = Inr t"
    using posix_resolve_total [of cwd a] posix_resolve_total [of cwd b] by blast
  then show ?thesis
    by (simp add: posix_relative_def split: prod.splits)
qed

lemma pathStartsWith_examples:
  "pathStartsWith (posix_host cwd) ''/a/b'' ''/a'' = Inr True"
  "pathStartsWith (posix_host cwd) ''/a'' ''/a/b'' = Inr False"
  "pathStartsWith (posix_host cwd) ''/a/b'' ''rel'' = Inr False"
  by (simp_all add: pathStartsWith_def posix_path_defs)

text \<open>
  C5.  The claim reads \<^verbatim>\<open>PARENT_RELATIVE_REGEX\<close> as anchored: the test is to answer false
  exactly when the relative path begins with a \<^verbatim>\<open>..\<close> segment.  The expression has no
  anchor.  For child \<^verbatim>\<open>/a/b..\<close> (and \<^verbatim>\<open>/a/x../y\<close>) and parent \<^verbatim>\<open>/a\<close> the relative
  path is \<^verbatim>\<open>b..\<close> (\<^verbatim>\<open>x../y\<close>), which does not begin with a \<^verbatim>\<open>..\<close> segment, and
  \<open>pathStartsWith\<close> still answers false: the parent is an ancestor of the child and the
  function documented as checking that denies it.
\<close>

theorem pathStartsWith_unanchored:
  "relative (posix_host cwd) ''/a'' ''/a/b..'' = Inr ''b..'' \<and>
   \<not> parent_relative_at Posix ''b..'' \<and>
   pathStartsWith (posix_host cwd) ''/a/b..'' ''/a'' = Inr False \<and>
   relative (posix_host cwd) ''/a'' ''/a/x../y'' = Inr ''x../y'' \<and>
   \<not> parent_relative_at Posix ''x../y'' \<and>
   pathStartsWith (posix_host cwd) ''/a/x../y'' ''/a'' = Inr False"
  by (simp add: pathStartsWith_def posix_path_defs)

text \<open>
  C6.  When exactly one of child and parent is absolute, \<open>pathStartsWith\<close> returns false:
  it returns a value and does not throw, whatever \<^verbatim>\<open>path.relative\<close> would do on the pair
  (it is not called).
\<close>

theorem pathStartsWith_mixed:
  "isAbsolute h child \<noteq> isAbsolute h parent \<Longrightarrow> pathStartsWith h child parent = Inr False"
  by (simp add: pathStartsWith_def)

theorem pathStartsWith_mixed_witness:
  "pathStartsWith (posix_host None) ''/a/b'' ''rel'' = Inr False \<and>
   pathStartsWith (posix_host None) ''rel'' ''/a/b'' = Inr False"
  using pathStartsWith_mixed [of "posix_host None" "''/a/b''" "''rel''"]
        pathStartsWith_mixed [of "posix_host None" "''rel''" "''/a/b''"]
  by (simp add: posix_isAbsolute_def)

section \<open>The settings store: properties\<close>

text \<open>
  C8.  \<open>updateSettings project settings\<close> stores \<open>settings\<close> as the project's entry,
  whatever the entry was, and leaves the entries of other projects alone.  It merges
  \<^verbatim>\<open>settings.workspace\<close> into \<^verbatim>\<open>defaultSettings\<close> field by field: a field present in
  \<^verbatim>\<open>settings.workspace\<close> takes its value, a field absent from it keeps the default's
  value (and without a \<^verbatim>\<open>workspace\<close> the default is unchanged).  The global enablement
  of the project, queried on the resulting state, is the \<^verbatim>\<open>workspace.enable\<close> just
  written when that is true or false; when it is null the default's \<^verbatim>\<open>enable\<close> has
  just become null too, and the answer is \<^verbatim>\<open>hasDenoConfig\<close>.  Nothing else of the
  state changes.
\<close>

theorem updateSettings_effect:
  "projectSettings (updateSettings proj stg st) proj = Some stg \<and>
   (\<forall>q. q \<noteq> proj \<longrightarrow> projectSettings (updateSettings proj stg st) q = projectSettings st q) \<and>
   (\<forall>ws. workspace stg = Some ws \<longrightarrow>
      (\<forall>k \<in> dom ws. defaultSettings (updateSettings proj stg st) k = ws k) \<and>
      (\<forall>k. k \<notin> dom ws \<longrightarrow> defaultSettings (updateSettings proj stg st) k = defaultSettings st k)) \<and>
   (workspace stg = None \<longrightarrow> defaultSettings (updateSettings proj stg st) = defaultSettings st) \<and>
   (\<forall>b. workspace_enable (Some stg) = Some (JBool b) \<longrightarrow> denoEnabled (updateSettings proj stg st) proj = b) \<and>
   (workspace_enable (Some stg) = Some JNull \<longrightarrow>
      denoEnabled (updateSettings proj stg st) proj = (hasDenoConfig stg = Some True)) \<and>
   logged (updateSettings proj stg st) = logged st \<and>
   refreshDiagnostics (updateSettings proj stg st) = refreshDiagnostics st \<and>
   immediates (updateSettings proj stg st) = immediates st \<and>
   heap (updateSettings proj stg st) = heap st \<and>
   next_ref (updateSettings proj stg st) = next_ref st"
proof -
  have store: "projectSettings (updateSettings proj stg st) proj = Some stg"
    by (simp add: updateSettings_def)
  have merge: "defaultSettings (updateSettings proj stg st) k = ws k" if "workspace stg = Some ws" "k \<in> dom ws" for ws k
    using that by (auto simp: updateSettings_def map_add_def split: option.splits)
  have keep: "defaultSettings (updateSettings proj stg st) k = defaultSettings st k"
    if "workspace stg = Some ws" "k \<notin> dom ws" for ws k
    using that by (auto simp: updateSettings_def map_add_def split: option.splits)
  have en: "denoEnabled (updateSettings proj stg st) proj = b" if "workspace_enable (Some stg) = Some (JBool b)" for b
    using that by (simp add: denoEnabled_def store)
  have nul: "denoEnabled (updateSettings proj stg st) proj = (hasDenoConfig stg = Some True)"
    if "workspace_enable (Some stg) = Some JNull"
  proof -
    from that obtain ws where ws: "workspace stg = Some ws" "ws ''enable'' = Some JNull"
      by (auto simp: workspace_enable_def split: option.splits)
    then have "defaultSettings (updateSettings proj stg st) ''enable'' = Some JNull"
      using merge [of ws "''enable''"] by auto
    then show ?thesis using that
      by (auto simp: denoEnabled_def store settings_hasDenoConfig_def split: option.splits)
  qed
  show ?thesis using store merge keep en nul
    by (simp add: updateSettings_def)
qed

text \<open>The witness: project \<^verbatim>\<open>p\<close> reports \<^verbatim>\<open>workspace.enable = true\<close> on a fresh store.\<close>

theorem updateSettings_effect_witness:
  "projectSettings st_on ''p'' = Some (example_settings (JBool True) False []) \<and>
   defaultSettings st_on ''enable'' = Some (JBool True) \<and>
   defaultSettings st_on ''lint'' = Some (JBool False) \<and>
   projectSettings st_on ''q'' = None \<and>
   denoEnabled st_on ''p'' = True"
proof -
  have ws: "workspace (example_settings (JBool True) False []) = Some [''enable'' \<mapsto> JBool True]"
    and we: "workspace_enable (Some (example_settings (JBool True) False [])) = Some (JBool True)"
    by (simp_all add: example_settings_def workspace_enable_def)
  have init: "defaultSettings initial_state ''lint'' = Some (JBool False)"
       "projectSettings initial_state ''q'' = None"
    by (simp_all add: initial_state_def initial_defaultSettings_def)
  from updateSettings_effect [of "''p''" "example_settings (JBool True) False []" initial_state]
  have *: "projectSettings st_on ''p'' = Some (example_settings (JBool True) False [])"
    "\<And>q. q \<noteq> ''p'' \<Longrightarrow> projectSettings st_on q = projectSettings initial_state q"
    "\<And>k. k \<in> dom [''enable'' \<mapsto> JBool True] \<Longrightarrow> defaultSettings st_on k = [''enable'' \<mapsto> JBool True] k"
    "\<And>k. k \<notin> dom [''enable'' \<mapsto> JBool True] \<Longrightarrow> defaultSettings st_on k = defaultSettings initial_state k"
    "denoEnabled st_on ''p'' = True"
    unfolding st_on_def [symmetric] using ws we by auto
  show ?thesis
    using *(1) *(2) [of "''q''"] *(3) [of "''enable''"] *(4) [of "''lint''"] *(5) init by simp
qed

text \<open>
  \<^verbatim>\<open>create\<close> makes the same update and queues its refresh instead of requesting it.
\<close>

lemma create_effect:
  "projectSettings (create project config st) = projectSettings (updateSettings project config st)"
  "defaultSettings (create project config st) = defaultSettings (updateSettings project config st)"
  "refreshDiagnostics (create project config st) = refreshDiagnostics st"
  "refreshDiagnostics (run_immediates (create project config st)) =
     refreshDiagnostics st @ immediates st @ [project]"
  by (simp_all add: create_def run_immediates_def updateSettings_def Let_def)

text \<open>
  C9.  \<open>onConfigurationChanged project settings\<close> changes the two settings variables
  exactly as \<open>updateSettings project settings\<close> does, writes one log line, and appends
  one call of \<^verbatim>\<open>refreshDiagnostics()\<close> for the project: one call per invocation, for
  every state, the state in which \<open>settings\<close> is already the stored value included.
  Two invocations with the same settings therefore make two calls.  The call is made
  inside the invocation itself (no callback is queued).
\<close>

theorem onConfigurationChanged_effect:
  "onConfigurationChanged proj stg st =
     (updateSettings proj stg st)
       \<lparr>logged := logged st @ [[LogConfigurationChanged stg]],
        refreshDiagnostics := refreshDiagnostics st @ [proj]\<rparr> \<and>
   projectSettings (onConfigurationChanged proj stg st) = projectSettings (updateSettings proj stg st) \<and>
   defaultSettings (onConfigurationChanged proj stg st) = defaultSettings (updateSettings proj stg st) \<and>
   refreshDiagnostics (onConfigurationChanged proj stg st) = refreshDiagnostics st @ [proj] \<and>
   immediates (onConfigurationChanged proj stg st) = immediates st \<and>
   refreshDiagnostics (onConfigurationChanged proj stg (onConfigurationChanged proj stg st))
     = refreshDiagnostics st @ [proj, proj]"
  by (cases "workspace stg") (simp_all add: onConfigurationChanged_def updateSettings_def log_def Let_def)

text \<open>The witness: the settings already stored for \<^verbatim>\<open>p\<close> are sent again.\<close>

theorem onConfigurationChanged_effect_witness:
  "refreshDiagnostics (onConfigurationChanged ''p'' (example_settings (JBool True) False []) st_on) = [''p''] \<and>
   projectSettings (onConfigurationChanged ''p'' (example_settings (JBool True) False []) st_on) ''p''
     = projectSettings st_on ''p''"
  using onConfigurationChanged_effect [of "''p''" "example_settings (JBool True) False []" st_on]
  by (simp add: st_on_def example_state_defs)

section \<open>Global enablement: properties\<close>

lemma st_other_on_B:
  "workspace_enable (projectSettings st_other_on ''B'') = Some JNull"
  "settings_hasDenoConfig (projectSettings st_other_on ''B'') = Some False"
  "defaultSettings st_other_on ''enable'' = Some (JBool True)"
  by (simp_all add: st_other_on_def example_state_defs workspace_enable_def settings_hasDenoConfig_def)

lemma st_other_off_B:
  "workspace_enable (projectSettings st_other_off ''B'') = Some JNull"
  "settings_hasDenoConfig (projectSettings st_other_off ''B'') = Some True"
  "defaultSettings st_other_off ''enable'' = Some (JBool False)"
  "settings_pathFilters (projectSettings st_other_off ''B'') = Some []"
  "document_enable (projectSettings st_other_off ''B'') f = None"
  by (simp_all add: st_other_off_def example_state_defs workspace_enable_def settings_hasDenoConfig_def
      settings_pathFilters_def document_enable_def)

lemma st_off_settings:
  "workspace_enable (projectSettings st_off ''p'') = Some (JBool False)"
  by (simp add: st_off_def example_state_defs workspace_enable_def)

lemma st_ws_settings:
  "projectSettings st_ws ''p'' = Some (example_settings JNull False [ws_filter])"
  "defaultSettings st_ws ''enable'' = Some JNull"
  by (simp_all add: st_ws_def example_state_defs)

text \<open>
  C4, as amended.  The global enablement of a project is its \<^verbatim>\<open>workspace.enable\<close> when
  that is true or false; otherwise the \<^verbatim>\<open>enable\<close> of the process-wide
  \<^verbatim>\<open>defaultSettings\<close> when that is true or false; otherwise the project's
  \<^verbatim>\<open>hasDenoConfig\<close>, and false when that is absent too.  In particular, with
  \<^verbatim>\<open>workspace.enable\<close> null, the default's \<^verbatim>\<open>enable\<close> null and
  \<^verbatim>\<open>hasDenoConfig\<close> true, it is true.
\<close>

theorem denoEnabled_layers:
  "(workspace_enable (projectSettings st proj) = Some (JBool b) \<longrightarrow> denoEnabled st proj = b) \<and>
   (workspace_enable (projectSettings st proj) \<in> {None, Some JNull} \<and>
    defaultSettings st ''enable'' = Some (JBool b) \<longrightarrow> denoEnabled st proj = b) \<and>
   (workspace_enable (projectSettings st proj) \<in> {None, Some JNull} \<and>
    defaultSettings st ''enable'' \<in> {None, Some JNull} \<longrightarrow>
      denoEnabled st proj = (settings_hasDenoConfig (projectSettings st proj) = Some True)) \<and>
   (workspace_enable (projectSettings st proj) = Some JNull \<and>
    defaultSettings st ''enable'' = Some JNull \<and>
    settings_hasDenoConfig (projectSettings st proj) = Some True \<longrightarrow> denoEnabled st proj = True)"
  by (auto simp: denoEnabled_def Let_def split: option.splits)

text \<open>
  The witness: an explicit false; a null with the default set to true by another project;
  a null with a null default and no configuration file.
\<close>

theorem denoEnabled_layers_witness:
  "denoEnabled st_off ''p'' = False \<and> denoEnabled st_other_on ''B'' = True \<and>
   denoEnabled st_ws ''p'' = False"
proof -
  have ws: "workspace_enable (projectSettings st_ws ''p'') = Some JNull"
      "settings_hasDenoConfig (projectSettings st_ws ''p'') = Some False"
    by (simp_all add: st_ws_settings workspace_enable_def settings_hasDenoConfig_def example_settings_def)
  from denoEnabled_layers [of st_off "''p''" False]
       denoEnabled_layers [of st_other_on "''B''" True]
       denoEnabled_layers [of st_ws "''p''" False]
  show ?thesis
    by (simp add: st_off_settings st_other_on_B ws st_ws_settings(2))
qed

text \<open>
  C4 as stated fails.  After \<^verbatim>\<open>B\<close> reported \<^verbatim>\<open>workspace.enable = null\<close> and then
  \<^verbatim>\<open>A\<close> reported \<^verbatim>\<open>true\<close>, \<^verbatim>\<open>B\<close> has \<^verbatim>\<open>workspace.enable\<close> null and
  \<^verbatim>\<open>hasDenoConfig\<close> false, and its global enablement is true.  After \<^verbatim>\<open>A\<close>
  reported \<^verbatim>\<open>false\<close>, \<^verbatim>\<open>B\<close> with \<^verbatim>\<open>workspace.enable\<close> null,
  \<^verbatim>\<open>hasDenoConfig\<close> true, no path filter and no per-document entry has global
  enablement false.
\<close>

theorem denoEnabled_reads_default:
  "workspace_enable (projectSettings st_other_on ''B'') = Some JNull \<and>
   settings_hasDenoConfig (projectSettings st_other_on ''B'') = Some False \<and>
   denoEnabled st_other_on ''B'' = True \<and>
   workspace_enable (projectSettings st_other_off ''B'') = Some JNull \<and>
   settings_hasDenoConfig (projectSettings st_other_off ''B'') = Some True \<and>
   settings_pathFilters (projectSettings st_other_off ''B'') = Some [] \<and>
   document_enable (projectSettings st_other_off ''B'') ''/b/mod.ts'' = None \<and>
   denoEnabled st_other_off ''B'' = False"
  by (simp add: st_other_on_B st_other_off_B denoEnabled_def)

section \<open>File-scoped enablement: properties\<close>

text \<open>
  The source's resolution, with its early exits and the errors of \<^verbatim>\<open>path.relative\<close>
  passed on, against the rule of the specification.  \<^verbatim>\<open>path.relative\<close> has to answer
  on the paths that the filters hold (it does for absolute paths).
\<close>

lemma pathStartsWith_total:
  "relative h p f = Inr r \<Longrightarrow> \<exists>b. pathStartsWith h f p = Inr b"
  by (auto simp: pathStartsWith_def)

lemma find_pathFilter_defined:
  assumes "\<forall>flt \<in> set fs. \<exists>b. pathStartsWith h f (pf_workspace flt) = Inr b"
  shows "find_pathFilter h f fs =
           Inr (find (\<lambda>flt. pathStartsWith h f (pf_workspace flt) = Inr True) fs)"
  using assms
proof (induction fs)
  case Nil
  then show ?case by simp
next
  case (Cons flt fs)
  then obtain b where b: "pathStartsWith h f (pf_workspace flt) = Inr b" by auto
  from Cons have IH: "find_pathFilter h f fs =
           Inr (find (\<lambda>flt. pathStartsWith h f (pf_workspace flt) = Inr True) fs)" by simp
  from b IH show ?case by (cases b) simp_all
qed

lemma some_pathStartsWith_defined:
  assumes "\<forall>p \<in> set ps. \<exists>b. pathStartsWith h f p = Inr b"
  shows "some_pathStartsWith h f ps = Inr (\<exists>p \<in> set ps. pathStartsWith h f p = Inr True)"
  using assms
proof (induction ps)
  case Nil
  then show ?case by simp
next
  case (Cons p ps)
  then obtain b where b: "pathStartsWith h f p = Inr b" by auto
  from Cons have IH: "some_pathStartsWith h f ps = Inr (\<exists>p \<in> set ps. pathStartsWith h f p = Inr True)" by simp
  from b IH show ?case by (cases b) simp_all
qed

lemma find_Some_mem: "find P xs = Some x \<Longrightarrow> x \<in> set xs"
  by (induction xs) (auto split: if_splits)

lemma fileNameDenoEnabled_defined:
  assumes total: "\<forall>p \<in> set (compared_paths (projectSettings st proj)).
                    \<exists>b. pathStartsWith h (normalizeFileName h f) p = Inr b"
  shows "fileNameDenoEnabled h st proj f =
           Inr (isFileEnabled_spec (\<lambda>child parent. pathStartsWith h child parent = Inr True)
                  (settings_pathFilters (projectSettings st proj))
                  (enable_value (document_enable (projectSettings st proj) (normalizeFileName h f)))
                  (denoEnabled st proj)
                  (normalizeFileName h f))"
proof (cases "settings_pathFilters (projectSettings st proj)")
  case None
  then show ?thesis by (simp add: fileNameDenoEnabled_def isFileEnabled_spec_def Let_def)
next
  case (Some fs)
  let ?f = "normalizeFileName h f"
  have paths: "\<forall>flt \<in> set fs. \<forall>p \<in> set (filter_paths flt). \<exists>b. pathStartsWith h ?f p = Inr b"
    using total Some by (auto simp: compared_paths_def)
  have ws: "\<forall>flt \<in> set fs. \<exists>b. pathStartsWith h ?f (pf_workspace flt) = Inr b"
    using paths by (auto simp: filter_paths_def)
  note fnd = find_pathFilter_defined [OF ws]
  show ?thesis
  proof (cases "find (\<lambda>flt. pathStartsWith h ?f (pf_workspace flt) = Inr True) fs")
    case None
    then show ?thesis using Some fnd
      by (simp add: fileNameDenoEnabled_def isFileEnabled_spec_def Let_def)
  next
    case (Some flt)
    then have mem: "flt \<in> set fs" by (rule find_Some_mem)
    have dis: "\<forall>p \<in> set (pf_disabled flt). \<exists>b. pathStartsWith h ?f p = Inr b"
      using paths mem by (auto simp: filter_paths_def)
    have en: "\<And>en. pf_enabled flt = Some en \<Longrightarrow> \<forall>p \<in> set en. \<exists>b. pathStartsWith h ?f p = Inr b"
      using paths mem by (auto simp: filter_paths_def)
    show ?thesis using Some \<open>settings_pathFilters (projectSettings st proj) = Some fs\<close> fnd
        some_pathStartsWith_defined [OF dis] en
      by (auto simp: fileNameDenoEnabled_def isFileEnabled_spec_def Let_def some_pathStartsWith_defined
               split: option.splits)
  qed
qed

lemma fileNameDenoEnabled_spec:
  assumes total: "\<forall>p \<in> set (compared_paths (projectSettings st proj)). \<exists>r. relative h p (normalizeFileName h f) = Inr r"
  shows "fileNameDenoEnabled h st proj f =
           Inr (isFileEnabled_spec (\<lambda>child parent. pathStartsWith h child parent = Inr True)
                  (settings_pathFilters (projectSettings st proj))
                  (enable_value (document_enable (projectSettings st proj) (normalizeFileName h f)))
                  (denoEnabled st proj)
                  (normalizeFileName h f))"
proof (rule fileNameDenoEnabled_defined)
  show "\<forall>p \<in> set (compared_paths (projectSettings st proj)).
          \<exists>b. pathStartsWith h (normalizeFileName h f) p = Inr b"
    using total by (auto dest: pathStartsWith_total)
qed

text \<open>
  Where the source's test is the test the specification words, the source's resolution is
  the rule of the specification over that test.
\<close>

lemma pathStartsWith_decided:
  "ancestry_decided h child parent \<Longrightarrow>
   pathStartsWith h child parent = Inr (isAncestor_spec h child parent)"
  by (auto simp: ancestry_decided_def pathStartsWith_def isAncestor_spec_def split: if_splits sum.splits)

lemma find_agree:
  "\<forall>x \<in> set xs. P x = Q x \<Longrightarrow> find P xs = find Q xs"
  by (induction xs) auto

lemma isFileEnabled_spec_agree:
  assumes "\<forall>p \<in> set (concat (map filter_paths (case filters of None \<Rightarrow> [] | Some fs \<Rightarrow> fs))).
             A f p = B f p"
  shows "isFileEnabled_spec A filters override global f = isFileEnabled_spec B filters override global f"
proof (cases filters)
  case None
  then show ?thesis by (simp add: isFileEnabled_spec_def)
next
  case (Some fs)
  have all: "\<forall>flt \<in> set fs. \<forall>p \<in> set (filter_paths flt). A f p = B f p"
    using assms Some by auto
  then have "\<forall>flt \<in> set fs. A f (pf_workspace flt) = B f (pf_workspace flt)"
    by (auto simp: filter_paths_def)
  then have fnd: "find (\<lambda>flt. A f (pf_workspace flt)) fs = find (\<lambda>flt. B f (pf_workspace flt)) fs"
    by (rule find_agree)
  show ?thesis
  proof (cases "find (\<lambda>flt. B f (pf_workspace flt)) fs")
    case None
    then show ?thesis using Some fnd by (simp add: isFileEnabled_spec_def)
  next
    case (Some flt)
    then have mem: "flt \<in> set fs" by (rule find_Some_mem)
    have dis: "\<forall>p \<in> set (pf_disabled flt). A f p = B f p"
      using all mem by (auto simp: filter_paths_def)
    have en: "\<And>en. pf_enabled flt = Some en \<Longrightarrow> \<forall>p \<in> set en. A f p = B f p"
      using all mem by (auto simp: filter_paths_def)
    show ?thesis using Some \<open>filters = Some fs\<close> fnd dis en
      by (auto simp: isFileEnabled_spec_def split: option.splits)
  qed
qed

lemma normalizeFileName_compared_name:
  "normalizeFileName h f = compared_name (platform h) f"
  by (cases "platform h") (simp_all add: normalizeFileName_def compared_name_def)

lemma document_override_eq:
  "enable_value (document_enable stg f) = document_override stg f"
  by (simp add: document_enable_def document_override_def split: option.splits)

lemma fileNameDenoEnabled_rule:
  assumes decided: "\<forall>p \<in> set (compared_paths (projectSettings st proj)).
                      ancestry_decided h (compared_name (platform h) filePath) p"
  shows "fileNameDenoEnabled h st proj filePath =
        Inr (isFileEnabled_spec (isAncestor_spec h)
               (case projectSettings st proj of None \<Rightarrow> None | Some s \<Rightarrow> pathFilters s)
               (document_override (projectSettings st proj) (compared_name (platform h) filePath))
               (denoEnabled st proj)
               (compared_name (platform h) filePath))"
proof -
  let ?f = "compared_name (platform h) filePath"
  let ?stg = "projectSettings st proj"
  have eq: "\<forall>p \<in> set (compared_paths ?stg). pathStartsWith h ?f p = Inr (isAncestor_spec h ?f p)"
    using decided by (auto intro: pathStartsWith_decided)
  then have "\<forall>p \<in> set (compared_paths ?stg). \<exists>b. pathStartsWith h (normalizeFileName h filePath) p = Inr b"
    by (auto simp: normalizeFileName_compared_name)
  from fileNameDenoEnabled_defined [OF this]
  have code: "fileNameDenoEnabled h st proj filePath =
           Inr (isFileEnabled_spec (\<lambda>child parent. pathStartsWith h child parent = Inr True)
                  (settings_pathFilters ?stg) (document_override ?stg ?f) (denoEnabled st proj) ?f)"
    by (simp add: normalizeFileName_compared_name document_override_eq)
  have "isFileEnabled_spec (\<lambda>child parent. pathStartsWith h child parent = Inr True)
          (settings_pathFilters ?stg) (document_override ?stg ?f) (denoEnabled st proj) ?f =
        isFileEnabled_spec (isAncestor_spec h)
          (settings_pathFilters ?stg) (document_override ?stg ?f) (denoEnabled st proj) ?f"
  proof (rule isFileEnabled_spec_agree)
    show "\<forall>p \<in> set (concat (map filter_paths
              (case settings_pathFilters ?stg of None \<Rightarrow> [] | Some fs \<Rightarrow> fs))).
            (pathStartsWith h ?f p = Inr True) = isAncestor_spec h ?f p"
      using eq by (auto simp: compared_paths_def)
  qed
  with code show ?thesis by (simp add: settings_pathFilters_def)
qed

lemma posix_normalizeFileName: "platform h = Posix \<Longrightarrow> normalizeFileName h f = f"
  by (simp add: normalizeFileName_def)

lemma ws_filter_examples:
  "fileNameDenoEnabled (posix_host cwd)
     (updateSettings proj (stg\<lparr>pathFilters := Some [ws_filter]\<rparr>) st) proj ''/ws/src/gen/x.ts'' = Inr False"
  "fileNameDenoEnabled (posix_host cwd)
     (updateSettings proj (stg\<lparr>pathFilters := Some [ws_filter]\<rparr>) st) proj ''/ws/src/app.ts'' = Inr True"
  "fileNameDenoEnabled (posix_host cwd)
     (updateSettings proj (stg\<lparr>pathFilters := Some [ws_filter]\<rparr>) st) proj ''/ws/other.ts'' = Inr False"
  by (simp_all add: fileNameDenoEnabled_def settings_pathFilters_def normalizeFileName_def Let_def
      updateSettings_def ws_filter_def pathStartsWith_def posix_path_defs)

lemma document_override_example:
  "fileNameDenoEnabled (posix_host cwd)
     (updateSettings proj
        (stg\<lparr>pathFilters := None,
             documents := Some [filePath \<mapsto> \<lparr>settings = [''enable'' \<mapsto> JBool b]\<rparr>]\<rparr>) st)
     proj filePath = Inr b"
  by (simp add: fileNameDenoEnabled_def settings_pathFilters_def normalizeFileName_def Let_def
      updateSettings_def document_enable_def)

text \<open>
  C3, as amended.  For every host, project, file path and state of the settings store such
  that the path ancestry test decides every path of the project's filters as the
  specification words it: \<open>fileNameDenoEnabled\<close> selects the first filter, in the order
  of \<^verbatim>\<open>pathFilters\<close>, whose workspace is an ancestor of the file path; within that
  filter it answers false if the file is under a disabled path, else, if there is an enabled
  list, whether the file is under one of its paths; else it uses the per-document override
  \<^verbatim>\<open>documents[path].settings.enable\<close> if present, else the global enablement.  The
  file path, as compared and as looked up in \<^verbatim>\<open>documents\<close>, is the queried path on a
  POSIX host and the queried path with every \<^verbatim>\<open>/\<close> replaced by \<^verbatim>\<open>\\<close> on win32.
  For the filter \<^verbatim>\<open>{workspace:"/ws", enabled:["/ws/src"], disabled:["/ws/src/gen"]}\<close>
  on a POSIX host, whatever else the settings and the store hold, \<^verbatim>\<open>/ws/src/gen/x.ts\<close>
  resolves to false, \<^verbatim>\<open>/ws/src/app.ts\<close> to true and \<^verbatim>\<open>/ws/other.ts\<close> to false;
  and without filters a per-document \<^verbatim>\<open>enable\<close> is the answer.  Nothing is said of
  paths whose relative path holds \<^verbatim>\<open>..\<close> before a separator or the end elsewhere than
  at its start (C5).
\<close>

theorem fileNameDenoEnabled_resolution:
  "((\<forall>p \<in> set (compared_paths (projectSettings st proj)).
       ancestry_decided h (compared_name (platform h) filePath) p) \<longrightarrow>
      fileNameDenoEnabled h st proj filePath =
        Inr (isFileEnabled_spec (isAncestor_spec h)
               (case projectSettings st proj of None \<Rightarrow> None | Some s \<Rightarrow> pathFilters s)
               (document_override (projectSettings st proj) (compared_name (platform h) filePath))
               (denoEnabled st proj)
               (compared_name (platform h) filePath))) \<and>
   compared_name Posix filePath = filePath \<and>
   compared_name Win32 filePath = map (\<lambda>c. if c = CHR ''/'' then backslash else c) filePath \<and>
   fileNameDenoEnabled (posix_host cwd)
     (updateSettings proj (stg\<lparr>pathFilters := Some [ws_filter]\<rparr>) st) proj ''/ws/src/gen/x.ts'' = Inr False \<and>
   fileNameDenoEnabled (posix_host cwd)
     (updateSettings proj (stg\<lparr>pathFilters := Some [ws_filter]\<rparr>) st) proj ''/ws/src/app.ts'' = Inr True \<and>
   fileNameDenoEnabled (posix_host cwd)
     (updateSettings proj (stg\<lparr>pathFilters := Some [ws_filter]\<rparr>) st) proj ''/ws/other.ts'' = Inr False \<and>
   fileNameDenoEnabled (posix_host cwd)
     (updateSettings proj
        (stg\<lparr>pathFilters := None,
             documents := Some [filePath \<mapsto> \<lparr>settings = [''enable'' \<mapsto> JBool b]\<rparr>]\<rparr>) st)
     proj filePath = Inr b"
  using fileNameDenoEnabled_rule [of st proj h filePath]
  by (simp add: ws_filter_examples document_override_example compared_name_def)

lemma app_ts_relative:
  "posix_relative cwd ''/ws'' ''/ws/src/app.ts'' = Inr ''src/app.ts''"
  "posix_relative cwd ''/ws/src/gen'' ''/ws/src/app.ts'' = Inr ''../app.ts''"
  "posix_relative cwd ''/ws/src'' ''/ws/src/app.ts'' = Inr ''app.ts''"
  by (simp_all add: posix_path_defs)

lemma app_ts_pathStartsWith:
  "pathStartsWith (posix_host cwd) ''/ws/src/app.ts'' ''/ws'' = Inr True"
  "pathStartsWith (posix_host cwd) ''/ws/src/app.ts'' ''/ws/src/gen'' = Inr False"
  "pathStartsWith (posix_host cwd) ''/ws/src/app.ts'' ''/ws/src'' = Inr True"
  by (simp_all add: pathStartsWith_def app_ts_relative posix_isAbsolute_def)

lemma app_ts_decided:
  "ancestry_decided (posix_host cwd) ''/ws/src/app.ts'' ''/ws''"
  "ancestry_decided (posix_host cwd) ''/ws/src/app.ts'' ''/ws/src/gen''"
  "ancestry_decided (posix_host cwd) ''/ws/src/app.ts'' ''/ws/src''"
  by (simp_all add: ancestry_decided_def app_ts_relative posix_isAbsolute_def)

lemma app_ts_isAncestor:
  "isAncestor_spec (posix_host cwd) ''/ws/src/app.ts'' ''/ws'' = True"
  "isAncestor_spec (posix_host cwd) ''/ws/src/app.ts'' ''/ws/src/gen'' = False"
  "isAncestor_spec (posix_host cwd) ''/ws/src/app.ts'' ''/ws/src'' = True"
  by (simp_all add: isAncestor_spec_def app_ts_relative posix_isAbsolute_def)

text \<open>The witness: \<^verbatim>\<open>/ws/src/app.ts\<close> under the filter, on a POSIX host.\<close>

theorem fileNameDenoEnabled_resolution_witness:
  "fileNameDenoEnabled (posix_host None) st_ws ''p'' ''/ws/src/app.ts'' = Inr True"
proof -
  let ?h = "posix_host None"
  let ?f = "''/ws/src/app.ts''"
  have name: "compared_name (platform ?h) ?f = ?f"
    by (simp add: compared_name_def)
  have paths: "compared_paths (projectSettings st_ws ''p'') = [''/ws'', ''/ws/src/gen'', ''/ws/src'']"
    by (simp add: st_ws_settings compared_paths_def settings_pathFilters_def example_settings_def
        filter_paths_def ws_filter_def)
  have decided: "\<forall>p \<in> set (compared_paths (projectSettings st_ws ''p'')).
                   ancestry_decided ?h (compared_name (platform ?h) ?f) p"
    unfolding paths name by (simp add: app_ts_decided)
  have spec: "isFileEnabled_spec (isAncestor_spec ?h)
               (case projectSettings st_ws ''p'' of None \<Rightarrow> None | Some s \<Rightarrow> pathFilters s)
               (document_override (projectSettings st_ws ''p'') (compared_name (platform ?h) ?f))
               (denoEnabled st_ws ''p'')
               (compared_name (platform ?h) ?f) = True"
    unfolding name
    by (simp add: isFileEnabled_spec_def st_ws_settings(1) example_settings_def
        ws_filter_def app_ts_isAncestor)
  note T = fileNameDenoEnabled_resolution [where h = ?h and st = st_ws and proj = "''p''"
      and filePath = ?f and cwd = None and stg = "example_settings JNull False []" and b = True]
  from T decided have "fileNameDenoEnabled ?h st_ws ''p'' ?f =
        Inr (isFileEnabled_spec (isAncestor_spec ?h)
               (case projectSettings st_ws ''p'' of None \<Rightarrow> None | Some s \<Rightarrow> pathFilters s)
               (document_override (projectSettings st_ws ''p'') (compared_name (platform ?h) ?f))
               (denoEnabled st_ws ''p'')
               (compared_name (platform ?h) ?f))"
    by blast
  then show ?thesis unfolding spec .
qed

text \<open>
  The input left out above: the file \<^verbatim>\<open>/ws/src/gen/x../a.ts\<close> lies under the workspace and
  under the disabled path of the filter, and the source's test denies the workspace (C5),
  so that the answer is the global enablement.
\<close>

lemma ws_filter_unanchored:
  "pathStartsWith (posix_host cwd) ''/ws/src/gen/x../a.ts'' ''/ws'' = Inr False"
  "isAncestor_spec (posix_host cwd) ''/ws/src/gen/x../a.ts'' ''/ws'' = True"
  "isAncestor_spec (posix_host cwd) ''/ws/src/gen/x../a.ts'' ''/ws/src/gen'' = True"
  "\<not> ancestry_decided (posix_host cwd) ''/ws/src/gen/x../a.ts'' ''/ws''"
  "fileNameDenoEnabled (posix_host cwd)
     (updateSettings proj (example_settings (JBool True) False [ws_filter]) st) proj
     ''/ws/src/gen/x../a.ts'' = Inr True"
  by (simp_all add: pathStartsWith_def isAncestor_spec_def ancestry_decided_def fileNameDenoEnabled_def
      settings_pathFilters_def normalizeFileName_def Let_def updateSettings_def ws_filter_def
      example_settings_def document_enable_def denoEnabled_def workspace_enable_def
      settings_hasDenoConfig_def posix_path_defs)

section \<open>File names on win32: properties\<close>

lemma normalizeFileName_Win32:
  "platform h = Win32 \<Longrightarrow>
   normalizeFileName h f = map (\<lambda>c. if c = CHR ''/'' then backslash else c) f"
  by (simp add: normalizeFileName_def)

lemma normalizeFileName_no_slash:
  "platform h = Win32 \<Longrightarrow> CHR ''/'' \<notin> set (normalizeFileName h f)"
  by (auto simp: normalizeFileName_def)

lemma normalizeFileName_idem:
  "normalizeFileName h (normalizeFileName h f) = normalizeFileName h f"
  by (simp add: normalizeFileName_def)

lemma fileNameDenoEnabled_normalized:
  "fileNameDenoEnabled h st proj (normalizeFileName h f) = fileNameDenoEnabled h st proj f"
  by (simp add: fileNameDenoEnabled_def normalizeFileName_idem)

lemma fileNameDenoEnabled_documents_key:
  assumes "key \<noteq> normalizeFileName h f"
  shows "fileNameDenoEnabled h
           (st\<lparr>projectSettings := (projectSettings st)(proj \<mapsto> stg\<lparr>documents := Some (docs(key := d))\<rparr>)\<rparr>) proj f =
         fileNameDenoEnabled h
           (st\<lparr>projectSettings := (projectSettings st)(proj \<mapsto> stg\<lparr>documents := Some docs\<rparr>)\<rparr>) proj f"
    (is "fileNameDenoEnabled h ?s1 proj f = fileNameDenoEnabled h ?s2 proj f")
proof -
  have doc: "document_enable (projectSettings ?s1 proj) (normalizeFileName h f) =
             document_enable (projectSettings ?s2 proj) (normalizeFileName h f)"
    using assms by (simp add: document_enable_def)
  have flt: "settings_pathFilters (projectSettings ?s1 proj) = settings_pathFilters (projectSettings ?s2 proj)"
    by (simp add: settings_pathFilters_def)
  have glob: "denoEnabled ?s1 proj = denoEnabled ?s2 proj"
    by (simp add: denoEnabled_def workspace_enable_def settings_hasDenoConfig_def Let_def
        cong: option.case_cong)
  show ?thesis
    unfolding fileNameDenoEnabled_def Let_def doc flt glob ..
qed
text \<open>
  C10, as amended.  On win32 the resolution replaces every \<^verbatim>\<open>/\<close> by \<^verbatim>\<open>\\<close> in the
  queried file name and in nothing else: a query answers as the query for the replaced
  name does, and the answer is the rule of the specification applied to the replaced name,
  the filters as stored and the \<^verbatim>\<open>documents\<close> entry under the replaced name.  Hence a
  \<^verbatim>\<open>documents\<close> key that contains a \<^verbatim>\<open>/\<close> is never the key looked up: whatever is
  stored or not stored under it, every query answers the same.  (Nothing of the kind is
  said of filter paths: they go through \<^verbatim>\<open>path.relative\<close>.)
\<close>

theorem win32_fileName_only:
  "platform h = Win32 \<longrightarrow>
     normalizeFileName h f = map (\<lambda>c. if c = CHR ''/'' then backslash else c) f \<and>
     fileNameDenoEnabled h st proj f = fileNameDenoEnabled h st proj (normalizeFileName h f) \<and>
     ((\<forall>p \<in> set (compared_paths (projectSettings st proj)).
         \<exists>r. relative h p (normalizeFileName h f) = Inr r) \<longrightarrow>
        fileNameDenoEnabled h st proj f =
          Inr (isFileEnabled_spec (\<lambda>child parent. pathStartsWith h child parent = Inr True)
                 (settings_pathFilters (projectSettings st proj))
                 (enable_value (document_enable (projectSettings st proj) (normalizeFileName h f)))
                 (denoEnabled st proj)
                 (normalizeFileName h f))) \<and>
     (CHR ''/'' \<in> set key \<longrightarrow>
        fileNameDenoEnabled h
          (st\<lparr>projectSettings := (projectSettings st)(proj \<mapsto> stg\<lparr>documents := Some (docs(key := d))\<rparr>)\<rparr>) proj f =
        fileNameDenoEnabled h
          (st\<lparr>projectSettings := (projectSettings st)(proj \<mapsto> stg\<lparr>documents := Some docs\<rparr>)\<rparr>) proj f)"
proof (intro impI conjI)
  assume w: "platform h = Win32"
  show "normalizeFileName h f = map (\<lambda>c. if c = CHR ''/'' then backslash else c) f"
    using w by (rule normalizeFileName_Win32)
  show "fileNameDenoEnabled h st proj f = fileNameDenoEnabled h st proj (normalizeFileName h f)"
    by (simp add: fileNameDenoEnabled_normalized)
  show "fileNameDenoEnabled h st proj f =
          Inr (isFileEnabled_spec (\<lambda>child parent. pathStartsWith h child parent = Inr True)
                 (settings_pathFilters (projectSettings st proj))
                 (enable_value (document_enable (projectSettings st proj) (normalizeFileName h f)))
                 (denoEnabled st proj)
                 (normalizeFileName h f))"
    if "\<forall>p \<in> set (compared_paths (projectSettings st proj)).
         \<exists>r. relative h p (normalizeFileName h f) = Inr r"
    using that by (rule fileNameDenoEnabled_spec)
  show "fileNameDenoEnabled h
          (st\<lparr>projectSettings := (projectSettings st)(proj \<mapsto> stg\<lparr>documents := Some (docs(key := d))\<rparr>)\<rparr>) proj f =
        fileNameDenoEnabled h
          (st\<lparr>projectSettings := (projectSettings st)(proj \<mapsto> stg\<lparr>documents := Some docs\<rparr>)\<rparr>) proj f"
    if "CHR ''/'' \<in> set key"
  proof (rule fileNameDenoEnabled_documents_key)
    from that normalizeFileName_no_slash [OF w, of f]
    show "key \<noteq> normalizeFileName h f" by auto
  qed
qed
lemma win32_host_sel [simp]:
  "platform win32_host = Win32"
  "isAbsolute win32_host = win32_isAbsolute"
  "relative win32_host = win32_relative"
  by (simp_all add: win32_host_def)

lemmas win32_path_defs =
  win32_isAbsolute_def win32_relative_def win32_resolve_drive_def isWindowsDeviceRoot_def
  toLowerCase_def normalizeString_def normalize_step_def
lemma app_ts_normalized: "normalizeFileName win32_host ''C:/ws/src/app.ts'' = app_ts_win"
  by (simp add: normalizeFileName_def app_ts_win_def)

lemma app_ts_win_relative:
  "win32_relative ''C:/ws'' app_ts_win = Inr (''src'' @ backslash # ''app.ts'')"
  "win32_relative ''C:/ws/src/gen'' app_ts_win = Inr (''..'' @ backslash # ''app.ts'')"
  "win32_relative ''C:/ws/src'' app_ts_win = Inr ''app.ts''"
  by (simp_all add: win32_path_defs app_ts_win_def)

lemma app_ts_win_pathStartsWith:
  "pathStartsWith win32_host app_ts_win ''C:/ws'' = Inr True"
  "pathStartsWith win32_host app_ts_win ''C:/ws/src/gen'' = Inr False"
  "pathStartsWith win32_host app_ts_win ''C:/ws/src'' = Inr True"
  by (simp_all add: pathStartsWith_def app_ts_win_relative)
     (simp_all add: win32_isAbsolute_def isWindowsDeviceRoot_def app_ts_win_def)

lemma st_drive_settings:
  "projectSettings st_drive ''p'' = Some (example_settings JNull False [drive_filter])"
  "defaultSettings st_drive ''enable'' = Some JNull"
  by (simp_all add: st_drive_def example_state_defs)

lemma st_drive_global: "denoEnabled st_drive ''p'' = False"
  by (simp add: denoEnabled_def st_drive_settings workspace_enable_def settings_hasDenoConfig_def
      example_settings_def)

lemma st_drive_app_ts: "fileNameDenoEnabled win32_host st_drive ''p'' ''C:/ws/src/app.ts'' = Inr True"
  by (simp add: fileNameDenoEnabled_def app_ts_normalized st_drive_settings settings_pathFilters_def
      example_settings_def drive_filter_def app_ts_win_pathStartsWith Let_def)

text \<open>
  The witness, with \<^verbatim>\<open>path.win32\<close>: the query \<^verbatim>\<open>C:/ws/src/app.ts\<close> under the filter
  on drive C; and the same query when the project has no filter and a \<^verbatim>\<open>documents\<close>
  entry under the key \<^verbatim>\<open>C:/ws/src/app.ts\<close> that enables Deno: the entry is not found and
  the answer is the global one.
\<close>

theorem win32_fileName_only_witness:
  "fileNameDenoEnabled win32_host st_drive ''p'' ''C:/ws/src/app.ts'' = Inr True \<and>
   fileNameDenoEnabled win32_host
     (st_drive\<lparr>projectSettings := (projectSettings st_drive)
        (''p'' \<mapsto> (example_settings JNull False [])\<lparr>documents := Some [''C:/ws/src/app.ts'' \<mapsto> doc_on]\<rparr>)\<rparr>)
     ''p'' ''C:/ws/src/app.ts'' = Inr False"
proof -
  let ?f = "''C:/ws/src/app.ts''"
  let ?stg = "example_settings JNull False []"
  have paths: "compared_paths (projectSettings st_drive ''p'') = [''C:/ws'', ''C:/ws/src/gen'', ''C:/ws/src'']"
    by (simp add: st_drive_settings compared_paths_def settings_pathFilters_def example_settings_def
        filter_paths_def drive_filter_def)
  have rel: "\<forall>p \<in> set (compared_paths (projectSettings st_drive ''p'')).
               \<exists>r. relative win32_host p (normalizeFileName win32_host ?f) = Inr r"
    unfolding paths app_ts_normalized by (simp add: app_ts_win_relative)
  have spec: "isFileEnabled_spec (\<lambda>child parent. pathStartsWith win32_host child parent = Inr True)
                 (settings_pathFilters (projectSettings st_drive ''p''))
                 (enable_value (document_enable (projectSettings st_drive ''p'') (normalizeFileName win32_host ?f)))
                 (denoEnabled st_drive ''p'')
                 (normalizeFileName win32_host ?f) = True"
    unfolding app_ts_normalized
    by (simp add: isFileEnabled_spec_def st_drive_settings settings_pathFilters_def example_settings_def
        drive_filter_def app_ts_win_pathStartsWith)
  have base: "fileNameDenoEnabled win32_host
     (st_drive\<lparr>projectSettings := (projectSettings st_drive)(''p'' \<mapsto> ?stg\<lparr>documents := Some Map.empty\<rparr>)\<rparr>)
     ''p'' ?f = Inr False"
    by (simp add: fileNameDenoEnabled_def app_ts_normalized settings_pathFilters_def
        example_settings_def document_enable_def denoEnabled_def workspace_enable_def
        settings_hasDenoConfig_def st_drive_settings Let_def)
  have slash: "CHR ''/'' \<in> set ?f" by simp
  have win: "platform win32_host = Win32" by simp
  note T = win32_fileName_only [where h = win32_host and f = ?f and st = st_drive and proj = "''p''"
         and key = ?f and stg = ?stg and docs = Map.empty and d = "Some doc_on"]
  from T win rel have "fileNameDenoEnabled win32_host st_drive ''p'' ?f =
          Inr (isFileEnabled_spec (\<lambda>child parent. pathStartsWith win32_host child parent = Inr True)
                 (settings_pathFilters (projectSettings st_drive ''p''))
                 (enable_value (document_enable (projectSettings st_drive ''p'') (normalizeFileName win32_host ?f)))
                 (denoEnabled st_drive ''p'')
                 (normalizeFileName win32_host ?f))"
    by blast
  then have first: "fileNameDenoEnabled win32_host st_drive ''p'' ?f = Inr True"
    unfolding spec .
  from T win slash have "fileNameDenoEnabled win32_host
          (st_drive\<lparr>projectSettings := (projectSettings st_drive)(''p'' \<mapsto> ?stg\<lparr>documents := Some (Map.empty(?f := Some doc_on))\<rparr>)\<rparr>) ''p'' ?f =
        fileNameDenoEnabled win32_host
          (st_drive\<lparr>projectSettings := (projectSettings st_drive)(''p'' \<mapsto> ?stg\<lparr>documents := Some Map.empty\<rparr>)\<rparr>) ''p'' ?f"
    by blast
  then have second: "fileNameDenoEnabled win32_host
          (st_drive\<lparr>projectSettings := (projectSettings st_drive)(''p'' \<mapsto> ?stg\<lparr>documents := Some (Map.empty(?f := Some doc_on))\<rparr>)\<rparr>) ''p'' ?f
        = Inr False"
    unfolding base .
  from first second show ?thesis by blast
qed

text \<open>
  C10 as stated fails for filter paths.  On win32, for the file name
  \<^verbatim>\<open>C:/ws/src/app.ts\<close>, which contains a \<^verbatim>\<open>/\<close>, the filter paths \<^verbatim>\<open>C:/ws\<close> and
  \<^verbatim>\<open>C:/ws/src\<close>, written with POSIX separators, both match: \<^verbatim>\<open>path.win32.relative\<close>
  takes either separator.  The query answers true where the global enablement is false.
\<close>

theorem win32_posix_filter_matches:
  "platform win32_host = Win32 \<and>
   CHR ''/'' \<in> set ''C:/ws/src/app.ts'' \<and>
   settings_pathFilters (projectSettings st_drive ''p'') = Some [drive_filter] \<and>
   pf_workspace drive_filter = ''C:/ws'' \<and> pf_enabled drive_filter = Some [''C:/ws/src''] \<and>
   pathStartsWith win32_host (normalizeFileName win32_host ''C:/ws/src/app.ts'') ''C:/ws'' = Inr True \<and>
   pathStartsWith win32_host (normalizeFileName win32_host ''C:/ws/src/app.ts'') ''C:/ws/src'' = Inr True \<and>
   denoEnabled st_drive ''p'' = False \<and>
   fileNameDenoEnabled win32_host st_drive ''p'' ''C:/ws/src/app.ts'' = Inr True"
  by (simp add: app_ts_normalized app_ts_win_pathStartsWith st_drive_global st_drive_app_ts
      st_drive_settings settings_pathFilters_def example_settings_def drive_filter_def)

lemma st_documents_settings:
  "projectSettings st_documents ''p'' =
     Some ((example_settings JNull False [])\<lparr>documents := Some [''C:/ws/src/app.ts'' \<mapsto> doc_on]\<rparr>)"
  "defaultSettings st_documents ''enable'' = Some JNull"
  by (simp_all add: st_documents_def example_state_defs)

text \<open>
  C3 as stated fails on win32.  Project \<^verbatim>\<open>p\<close> has no path filter and a per-document
  entry under \<^verbatim>\<open>C:/ws/src/app.ts\<close> whose \<^verbatim>\<open>enable\<close> is true, so the rule applied to
  the file path \<^verbatim>\<open>C:/ws/src/app.ts\<close> answers true.  The source looks the entry up under
  the name with its separators replaced, finds none, and answers with the global
  enablement, false.
\<close>

theorem win32_override_not_found:
  "platform win32_host = Win32 \<and>
   pathFilters ((example_settings JNull False [])\<lparr>documents := Some [''C:/ws/src/app.ts'' \<mapsto> doc_on]\<rparr>) = Some [] \<and>
   projectSettings st_documents ''p'' =
     Some ((example_settings JNull False [])\<lparr>documents := Some [''C:/ws/src/app.ts'' \<mapsto> doc_on]\<rparr>) \<and>
   document_override (projectSettings st_documents ''p'') ''C:/ws/src/app.ts'' = Some True \<and>
   denoEnabled st_documents ''p'' = False \<and>
   fileNameDenoEnabled win32_host st_documents ''p'' ''C:/ws/src/app.ts'' = Inr False"
  by (simp add: st_documents_settings example_settings_def document_override_def doc_on_def
      denoEnabled_def workspace_enable_def settings_hasDenoConfig_def fileNameDenoEnabled_def
      settings_pathFilters_def document_enable_def app_ts_normalized app_ts_win_def Let_def)

section \<open>The interception factory: properties\<close>

lemma callIfDisabled_EmptyArray_enabled:
  assumes "resolve_enabled h st proj fileNameArg args = Inr True"
  shows "callIfDisabled h proj ls fn fileNameArg EmptyArray args st =
           (Inr (VRef (next_ref st)),
            (log [LogStr fn, LogArgs args] st)
              \<lparr>heap := (heap st)(next_ref st \<mapsto> OArray []), next_ref := Suc (next_ref st)\<rparr>)"
  using assms by (simp add: callIfDisabled_def Let_def fresh_emptyReturn_def alloc_def)

lemma quickInfo_entry:
  "map_of wrapped_operations ''getQuickInfoAtPosition'' = Some (Some 0, EmptyValue VUndefined)"
  by (simp add: wrapped_operations_def)

text \<open>
  C1, as amended.  The wrapper is named for what it does: it calls the underlying method
  if Deno is disabled.  For every wrapped operation and every argument list, after the
  call has been logged: if the resolved enablement is true, the wrapper returns the neutral
  result (a new empty array for an array, the producer's result for a producer, the value
  itself otherwise) and the underlying method plays no part in the outcome; if the resolved
  enablement is false, it calls the underlying method with the arguments it was given and
  returns that call's outcome as it is.  The enablement is the project-global one when no
  file-name position is declared, and the file-scoped one for the string at the declared
  position.  Every operation the factory is called for in \<^verbatim>\<open>create\<close> is such a wrapper
  in the returned service.
\<close>

theorem callIfDisabled_gate:
  "(resolve_enabled h st proj fileNameArg args = Inr True \<longrightarrow>
      callIfDisabled h proj ls fn fileNameArg emptyReturn args st =
        (case fresh_emptyReturn emptyReturn (log [LogStr fn, LogArgs args] st) of
           (v, st') \<Rightarrow> (Inr v, st')) \<and>
      callIfDisabled h proj ls fn fileNameArg emptyReturn args st =
        callIfDisabled h proj ls' fn fileNameArg emptyReturn args st) \<and>
   (resolve_enabled h st proj fileNameArg args = Inr False \<longrightarrow>
      callIfDisabled h proj ls fn fileNameArg emptyReturn args st =
        ls fn args (log [LogStr fn, LogArgs args] st)) \<and>
   resolve_enabled h st proj None args = Inr (denoEnabled st proj) \<and>
   (i < length args \<and> args ! i = VStr fileName \<longrightarrow>
      resolve_enabled h st proj (Some i) args = fileNameDenoEnabled h st proj fileName) \<and>
   fresh_emptyReturn EmptyArray st =
     (VRef (next_ref st),
      st\<lparr>heap := (heap st)(next_ref st \<mapsto> OArray []), next_ref := Suc (next_ref st)\<rparr>) \<and>
   fresh_emptyReturn (EmptyProducer produce) st = produce st \<and>
   fresh_emptyReturn (EmptyValue v) st = (v, st) \<and>
   (map_of wrapped_operations fn = Some (fileNameArg, emptyReturn) \<longrightarrow>
      create_service h proj ls fn = callIfDisabled h proj ls fn fileNameArg emptyReturn)"
proof -
  have "resolve_enabled h st proj None args = Inr (denoEnabled st proj)"
    and "i < length args \<and> args ! i = VStr fileName \<longrightarrow>
      resolve_enabled h st proj (Some i) args = fileNameDenoEnabled h st proj fileName"
    by (simp_all add: resolve_enabled_def)
  moreover have "fresh_emptyReturn EmptyArray st =
     (VRef (next_ref st),
      st\<lparr>heap := (heap st)(next_ref st \<mapsto> OArray []), next_ref := Suc (next_ref st)\<rparr>)"
    and "fresh_emptyReturn (EmptyProducer produce) st = produce st"
    and "fresh_emptyReturn (EmptyValue v) st = (v, st)"
    by (simp_all add: fresh_emptyReturn_def alloc_def)
  moreover have "map_of wrapped_operations fn = Some (fileNameArg, emptyReturn) \<longrightarrow>
      create_service h proj ls fn = callIfDisabled h proj ls fn fileNameArg emptyReturn"
    by (simp add: create_service_def)
  ultimately show ?thesis
    by (simp add: callIfDisabled_def Let_def)
qed

text \<open>
  The witness: \<^verbatim>\<open>getQuickInfoAtPosition("/a.ts", 3)\<close> of the service \<^verbatim>\<open>create\<close>
  returns, for a project with Deno enabled and for one with Deno disabled.
\<close>

theorem callIfDisabled_gate_witness:
  "create_service (posix_host None) ''p'' probe_engine ''getQuickInfoAtPosition''
       [VStr ''/a.ts'', VNum 3] st_on =
     (Inr VUndefined, log [LogStr ''getQuickInfoAtPosition'', LogArgs [VStr ''/a.ts'', VNum 3]] st_on) \<and>
   create_service (posix_host None) ''p'' probe_engine ''getQuickInfoAtPosition''
       [VStr ''/a.ts'', VNum 3] st_off =
     probe_engine ''getQuickInfoAtPosition'' [VStr ''/a.ts'', VNum 3]
       (log [LogStr ''getQuickInfoAtPosition'', LogArgs [VStr ''/a.ts'', VNum 3]] st_off)"
proof -
  let ?h = "posix_host None"
  let ?fn = "''getQuickInfoAtPosition''"
  let ?args = "[VStr ''/a.ts'', VNum 3]"
  have on: "resolve_enabled ?h st_on ''p'' (Some 0) ?args = Inr True"
    and off: "resolve_enabled ?h st_off ''p'' (Some 0) ?args = Inr False"
    by (simp_all add: resolve_enabled_def st_on_enabled st_off_disabled)
  note on_gate = callIfDisabled_gate [where h = ?h and st = st_on and proj = "''p''"
      and fileNameArg = "Some 0" and args = ?args and ls = probe_engine and ls' = probe_engine
      and fn = ?fn and emptyReturn = "EmptyValue VUndefined" and v = VUndefined
      and produce = emptyClassifications and i = 0 and fileName = "''/a.ts''"]
  note off_gate = callIfDisabled_gate [where h = ?h and st = st_off and proj = "''p''"
      and fileNameArg = "Some 0" and args = ?args and ls = probe_engine and ls' = probe_engine
      and fn = ?fn and emptyReturn = "EmptyValue VUndefined" and v = VUndefined
      and produce = emptyClassifications and i = 0 and fileName = "''/a.ts''"]
  from on_gate quickInfo_entry
  have service: "create_service ?h ''p'' probe_engine ?fn =
                   callIfDisabled ?h ''p'' probe_engine ?fn (Some 0) (EmptyValue VUndefined)"
    by blast
  from on_gate on
  have enabled: "callIfDisabled ?h ''p'' probe_engine ?fn (Some 0) (EmptyValue VUndefined) ?args st_on =
        (case fresh_emptyReturn (EmptyValue VUndefined) (log [LogStr ?fn, LogArgs ?args] st_on) of
           (v, st') \<Rightarrow> (Inr v, st'))"
    by blast
  from off_gate off
  have disabled: "callIfDisabled ?h ''p'' probe_engine ?fn (Some 0) (EmptyValue VUndefined) ?args st_off =
        probe_engine ?fn ?args (log [LogStr ?fn, LogArgs ?args] st_off)"
    by blast
  show ?thesis
    unfolding service enabled disabled by (simp add: fresh_emptyReturn_def)
qed

text \<open>
  C1 as stated fails, in both directions.  With the enablement resolved to true the wrapper
  returns \<^verbatim>\<open>undefined\<close> and not what the underlying method returns; with the enablement
  resolved to false it returns the underlying method's \<^verbatim>\<open>"engine"\<close>, and the log shows
  that the method ran.
\<close>

theorem callIfDisabled_inverted:
  "resolve_enabled (posix_host None) st_on ''p'' (Some 0) [VStr ''/a.ts''] = Inr True \<and>
   callIfDisabled (posix_host None) ''p'' probe_engine ''getQuickInfoAtPosition'' (Some 0)
       (EmptyValue VUndefined) [VStr ''/a.ts''] st_on
     \<noteq> probe_engine ''getQuickInfoAtPosition'' [VStr ''/a.ts'']
         (log [LogStr ''getQuickInfoAtPosition'', LogArgs [VStr ''/a.ts'']] st_on) \<and>
   fst (callIfDisabled (posix_host None) ''p'' probe_engine ''getQuickInfoAtPosition'' (Some 0)
       (EmptyValue VUndefined) [VStr ''/a.ts''] st_on) = Inr VUndefined \<and>
   resolve_enabled (posix_host None) st_off ''p'' (Some 0) [VStr ''/a.ts''] = Inr False \<and>
   fst (callIfDisabled (posix_host None) ''p'' probe_engine ''getQuickInfoAtPosition'' (Some 0)
       (EmptyValue VUndefined) [VStr ''/a.ts''] st_off) = Inr (VStr ''engine'') \<and>
   logged (snd (callIfDisabled (posix_host None) ''p'' probe_engine ''getQuickInfoAtPosition'' (Some 0)
       (EmptyValue VUndefined) [VStr ''/a.ts''] st_off)) =
     logged st_off @ [[LogStr ''getQuickInfoAtPosition'', LogArgs [VStr ''/a.ts'']],
                      [LogStr ''engine'', LogStr ''getQuickInfoAtPosition'']]"
proof -
  have on: "resolve_enabled (posix_host None) st_on ''p'' (Some 0) [VStr ''/a.ts''] = Inr True"
    and off: "resolve_enabled (posix_host None) st_off ''p'' (Some 0) [VStr ''/a.ts''] = Inr False"
    by (simp_all add: resolve_enabled_def st_on_enabled st_off_disabled)
  show ?thesis
    using on off
    by (simp add: callIfDisabled_def Let_def fresh_emptyReturn_def probe_engine_def)
qed

text \<open>
  C7, as amended.  For a wrapped operation whose declared neutral result is an array: two
  successive calls made while its enablement resolves to true return references to two
  different arrays, each empty when it is returned.  Whatever the caller stores into the
  first array between the calls (\<open>xs\<close>) is still what the first array holds after the
  second call, and the second array is empty.
\<close>

theorem fresh_array_per_call:
  assumes first: "resolve_enabled h st proj fileNameArg args1 = Inr True"
      and second: "resolve_enabled h st proj fileNameArg args2 = Inr True"
      and call1: "callIfDisabled h proj ls fn fileNameArg EmptyArray args1 st = (r1, s1)"
      and call2: "callIfDisabled h proj ls fn fileNameArg EmptyArray args2
                    (s1\<lparr>heap := (heap s1)(next_ref st \<mapsto> OArray xs)\<rparr>) = (r2, s2)"
  shows "r1 = Inr (VRef (next_ref st)) \<and> heap s1 (next_ref st) = Some (OArray []) \<and>
         r2 = Inr (VRef (Suc (next_ref st))) \<and> heap s2 (Suc (next_ref st)) = Some (OArray []) \<and>
         heap s2 (next_ref st) = Some (OArray xs)"
proof -
  from call1 have r1: "r1 = Inr (VRef (next_ref st))"
    and s1: "s1 = (log [LogStr fn, LogArgs args1] st)
              \<lparr>heap := (heap st)(next_ref st \<mapsto> OArray []), next_ref := Suc (next_ref st)\<rparr>"
    by (simp_all add: callIfDisabled_EmptyArray_enabled [OF first])
  let ?s1' = "s1\<lparr>heap := (heap s1)(next_ref st \<mapsto> OArray xs)\<rparr>"
  have "resolve_enabled h ?s1' proj fileNameArg args2 = resolve_enabled h st proj fileNameArg args2"
    by (rule resolve_enabled_cong) (simp_all add: s1)
  with second have "resolve_enabled h ?s1' proj fileNameArg args2 = Inr True" by simp
  from call2 [unfolded callIfDisabled_EmptyArray_enabled [OF this]]
  have r2: "r2 = Inr (VRef (Suc (next_ref st)))"
    and h2: "heap s2 = (heap ?s1')(Suc (next_ref st) \<mapsto> OArray [])"
    by (auto simp: s1)
  show ?thesis using r1 r2 h2 by (simp add: s1)
qed

text \<open>
  The witness: \<^verbatim>\<open>getSemanticDiagnostics\<close> twice for a project with Deno enabled, the
  caller pushing onto the first result in between.
\<close>

theorem fresh_array_per_call_witness:
  "fst (callIfDisabled (posix_host None) ''p'' shared_engine ''getSemanticDiagnostics'' (Some 0)
          EmptyArray [VStr ''/a.ts''] (shared_state st_on)) = Inr (VRef 1) \<and>
   fst (callIfDisabled (posix_host None) ''p'' shared_engine ''getSemanticDiagnostics'' (Some 0)
          EmptyArray [VStr ''/b.ts'']
          ((snd (callIfDisabled (posix_host None) ''p'' shared_engine ''getSemanticDiagnostics''
                   (Some 0) EmptyArray [VStr ''/a.ts''] (shared_state st_on)))
             \<lparr>heap := (heap (snd (callIfDisabled (posix_host None) ''p'' shared_engine
                   ''getSemanticDiagnostics'' (Some 0) EmptyArray [VStr ''/a.ts''] (shared_state st_on))))
                 (1 \<mapsto> OArray [VNum 7])\<rparr>)) = Inr (VRef 2)"
proof -
  let ?h = "posix_host None"
  let ?st = "shared_state st_on"
  let ?c1 = "callIfDisabled ?h ''p'' shared_engine ''getSemanticDiagnostics'' (Some 0)
          EmptyArray [VStr ''/a.ts''] ?st"
  let ?c2 = "callIfDisabled ?h ''p'' shared_engine ''getSemanticDiagnostics'' (Some 0)
          EmptyArray [VStr ''/b.ts''] ((snd ?c1)\<lparr>heap := (heap (snd ?c1))(next_ref ?st \<mapsto> OArray [VNum 7])\<rparr>)"
  have e1: "resolve_enabled ?h ?st ''p'' (Some 0) [VStr ''/a.ts''] = Inr True"
    and e2: "resolve_enabled ?h ?st ''p'' (Some 0) [VStr ''/b.ts''] = Inr True"
    by (simp_all add: resolve_enabled_def st_on_enabled)
  have "?c1 = (fst ?c1, snd ?c1)" and "?c2 = (fst ?c2, snd ?c2)" by simp_all
  from fresh_array_per_call [OF e1 e2 this]
  show ?thesis by simp
qed

text \<open>
  C7 as stated fails.  While the enablement resolves to false (Deno disabled) the wrapper
  hands out what the underlying method returns: here two successive calls of
  \<^verbatim>\<open>getSemanticDiagnostics\<close> return the same reference, to an array that is not empty.
\<close>

theorem shared_result_when_disabled:
  "resolve_enabled (posix_host None) (shared_state st_off) ''p'' (Some 0) [VStr ''/a.ts''] = Inr False \<and>
   callIfDisabled (posix_host None) ''p'' shared_engine ''getSemanticDiagnostics'' (Some 0)
      EmptyArray [VStr ''/a.ts''] (shared_state st_off)
     = (Inr (VRef 0), log [LogStr ''getSemanticDiagnostics'', LogArgs [VStr ''/a.ts'']] (shared_state st_off)) \<and>
   fst (callIfDisabled (posix_host None) ''p'' shared_engine ''getSemanticDiagnostics'' (Some 0)
      EmptyArray [VStr ''/a.ts'']
      (log [LogStr ''getSemanticDiagnostics'', LogArgs [VStr ''/a.ts'']] (shared_state st_off)))
     = Inr (VRef 0) \<and>
   heap (snd (callIfDisabled (posix_host None) ''p'' shared_engine ''getSemanticDiagnostics'' (Some 0)
      EmptyArray [VStr ''/a.ts'']
      (log [LogStr ''getSemanticDiagnostics'', LogArgs [VStr ''/a.ts'']] (shared_state st_off)))) 0
     = Some (OArray [VStr ''diagnostic''])"
proof -
  have off: "resolve_enabled (posix_host None) st_off ''p'' (Some 0) [VStr ''/a.ts''] = Inr False"
    by (simp add: resolve_enabled_def st_off_disabled)
  then show ?thesis
    by (simp add: callIfDisabled_def Let_def shared_engine_def)
qed

text \<open>
  C2, as amended.  The replacements of \<^verbatim>\<open>getGlobalProjectErrors\<close> and
  \<^verbatim>\<open>getAllProjectErrors\<close>: whenever the project-global enablement is true they return a
  new empty array and do not call the original; whenever it is false they call the original
  and return its outcome.
\<close>

theorem project_errors_gate:
  "(denoEnabled st proj \<longrightarrow>
      getGlobalProjectErrors proj original st =
        (Inr (VRef (next_ref st)),
         st\<lparr>heap := (heap st)(next_ref st \<mapsto> OArray []), next_ref := Suc (next_ref st)\<rparr>) \<and>
      getAllProjectErrors proj original st =
        (Inr (VRef (next_ref st)),
         st\<lparr>heap := (heap st)(next_ref st \<mapsto> OArray []), next_ref := Suc (next_ref st)\<rparr>)) \<and>
   (\<not> denoEnabled st proj \<longrightarrow>
      getGlobalProjectErrors proj original st = original st \<and>
      getAllProjectErrors proj original st = original st)"
  by (simp add: getGlobalProjectErrors_def getAllProjectErrors_def alloc_def)

text \<open>The witness: a project with Deno enabled, and one with Deno disabled.\<close>

theorem project_errors_gate_witness:
  "fst (getGlobalProjectErrors ''p'' shared_errors (shared_state st_on)) = Inr (VRef 1) \<and>
   heap (snd (getGlobalProjectErrors ''p'' shared_errors (shared_state st_on))) 1 = Some (OArray []) \<and>
   fst (getAllProjectErrors ''p'' shared_errors (shared_state st_on)) = Inr (VRef 1) \<and>
   getGlobalProjectErrors ''p'' shared_errors (shared_state st_off) = shared_errors (shared_state st_off) \<and>
   getAllProjectErrors ''p'' shared_errors (shared_state st_off) = shared_errors (shared_state st_off)"
  using project_errors_gate [of "shared_state st_on" "''p''" shared_errors]
        project_errors_gate [of "shared_state st_off" "''p''" shared_errors]
  by (simp add: st_on_enabled st_off_disabled)

text \<open>
  C2 as stated fails.  With the global enablement false both methods return the original's
  array of errors, which is not empty; with it true neither returns what the original
  returns.
\<close>

theorem project_errors_inverted:
  "denoEnabled (shared_state st_off) ''p'' = False \<and>
   fst (getGlobalProjectErrors ''p'' shared_errors (shared_state st_off)) = Inr (VRef 0) \<and>
   heap (snd (getGlobalProjectErrors ''p'' shared_errors (shared_state st_off))) 0
     = Some (OArray [VStr ''diagnostic'']) \<and>
   fst (getAllProjectErrors ''p'' shared_errors (shared_state st_off)) = Inr (VRef 0) \<and>
   heap (snd (getAllProjectErrors ''p'' shared_errors (shared_state st_off))) 0
     = Some (OArray [VStr ''diagnostic'']) \<and>
   denoEnabled (shared_state st_on) ''p'' = True \<and>
   getGlobalProjectErrors ''p'' shared_errors (shared_state st_on) \<noteq> shared_errors (shared_state st_on) \<and>
   getAllProjectErrors ''p'' shared_errors (shared_state st_on) \<noteq> shared_errors (shared_state st_on)"
  by (simp add: getGlobalProjectErrors_def getAllProjectErrors_def alloc_def shared_errors_def
      st_on_enabled st_off_disabled)

end
